theory Spec2Isabelle
  imports Complex_Main "HOL-Library.Word"
begin

section \<open>Exact decimals (the decimal package used by \<open>TokenAmount\<close>)\<close>

text \<open>
  \<open>TokenAmount\<close> stores a \<open>decimal.Decimal\<close> of the third-party package
  \<open>github.com/shopspring/decimal\<close>: an unbounded integer \<open>value\<close> and a decimal
  exponent \<open>exp\<close>, denoting \<open>value * 10 ^ exp\<close>. The package is not part of the
  repository; the operations \<open>ToWei\<close> and \<open>FromWei\<close> call are modelled here after
  the package's own definitions. \<open>big.Int\<close> is \<open>int\<close>.
\<close>

record Decimal =
  value_d :: int
  exp_d :: int

text \<open>\<open>big.Int.Quo\<close> and \<open>big.Int.QuoRem\<close>: division truncated towards zero, the
  remainder has the sign of the dividend. (They panic on a zero divisor; every divisor
  below is a power of ten.)\<close>

definition Quo :: "int \<Rightarrow> int \<Rightarrow> int" where
  "Quo x y = sgn x * sgn y * (\<bar>x\<bar> div \<bar>y\<bar>)"

definition Rem :: "int \<Rightarrow> int \<Rightarrow> int" where
  "Rem x y = x - y * Quo x y"

definition NewFromInt :: "int \<Rightarrow> Decimal" where
  "NewFromInt n = \<lparr>value_d = n, exp_d = 0\<rparr>"

definition NewFromBigInt :: "int \<Rightarrow> int \<Rightarrow> Decimal" where
  "NewFromBigInt v e = \<lparr>value_d = v, exp_d = e\<rparr>"

text \<open>\<open>Decimal.Mul\<close>: the values are multiplied, the exponents added. (The package
  panics when the exponent sum leaves int32; in \<open>ToWei\<close> one exponent is 0.)\<close>

definition Mul :: "Decimal \<Rightarrow> Decimal \<Rightarrow> Decimal" where
  "Mul d d2 = \<lparr>value_d = value_d d * value_d d2, exp_d = exp_d d + exp_d d2\<rparr>"

text \<open>\<open>Decimal.Pow\<close> at a non-negative integer exponent: repeated \<open>Mul\<close>, starting
  from the decimal 1 (exponent 0).\<close>

primrec Pow :: "Decimal \<Rightarrow> nat \<Rightarrow> Decimal" where
  "Pow d 0 = NewFromInt 1"
| "Pow d (Suc n) = Mul (Pow d n) d"

text \<open>\<open>Decimal.rescale\<close>: the same number at another exponent; moving to a larger
  exponent drops digits by truncation.\<close>

definition rescale :: "Decimal \<Rightarrow> int \<Rightarrow> Decimal" where
  "rescale d e =
     (if exp_d d = e then d
      else let expScale = 10 ^ nat \<bar>e - exp_d d\<bar> in
        if e > exp_d d then \<lparr>value_d = Quo (value_d d) expScale, exp_d = e\<rparr>
        else \<lparr>value_d = value_d d * expScale, exp_d = e\<rparr>)"

definition BigInt :: "Decimal \<Rightarrow> int" where
  "BigInt d = value_d (rescale d 0)"

definition RescalePair :: "Decimal \<Rightarrow> Decimal \<Rightarrow> Decimal \<times> Decimal" where
  "RescalePair d1 d2 =
     (if exp_d d1 < exp_d d2 then (d1, rescale d2 (exp_d d1))
      else if exp_d d1 > exp_d d2 then (rescale d1 (exp_d d2), d2)
      else (d1, d2))"

definition Cmp :: "Decimal \<Rightarrow> Decimal \<Rightarrow> int" where
  "Cmp d d2 =
     (let (rd, rd2) = RescalePair d d2 in
      if value_d rd < value_d rd2 then - 1 else if value_d rd = value_d rd2 then 0 else 1)"

definition Equal :: "Decimal \<Rightarrow> Decimal \<Rightarrow> bool" where
  "Equal d d2 = (Cmp d d2 = 0)"

definition Add :: "Decimal \<Rightarrow> Decimal \<Rightarrow> Decimal" where
  "Add d d2 = (let (rd, rd2) = RescalePair d d2 in
     \<lparr>value_d = value_d rd + value_d rd2, exp_d = exp_d rd\<rparr>)"

definition Sub :: "Decimal \<Rightarrow> Decimal \<Rightarrow> Decimal" where
  "Sub d d2 = (let (rd, rd2) = RescalePair d d2 in
     \<lparr>value_d = value_d rd - value_d rd2, exp_d = exp_d rd\<rparr>)"

definition Abs :: "Decimal \<Rightarrow> Decimal" where
  "Abs d = \<lparr>value_d = \<bar>value_d d\<bar>, exp_d = exp_d d\<rparr>"

text \<open>\<open>Decimal.QuoRem\<close>: quotient with \<open>precision\<close> fractional digits, truncated,
  and the remainder.\<close>

definition QuoRem :: "Decimal \<Rightarrow> Decimal \<Rightarrow> int \<Rightarrow> Decimal \<times> Decimal" where
  "QuoRem d d2 precision =
     (let scale = - precision;
          e = exp_d d - exp_d d2 - scale;
          (aa, bb, scalerest) =
            (if e < 0 then (value_d d, value_d d2 * 10 ^ nat (- e), exp_d d)
             else (value_d d * 10 ^ nat e, value_d d2, scale + exp_d d2))
      in (\<lparr>value_d = Quo aa bb, exp_d = scale\<rparr>, \<lparr>value_d = Rem aa bb, exp_d = scalerest\<rparr>))"

text \<open>\<open>Decimal.DivRound\<close>: the quotient rounded half away from zero at \<open>precision\<close>
  fractional digits.\<close>

definition DivRound :: "Decimal \<Rightarrow> Decimal \<Rightarrow> int \<Rightarrow> Decimal" where
  "DivRound d d2 precision =
     (let (q, r) = QuoRem d d2 precision;
          r2 = \<lparr>value_d = \<bar>value_d r\<bar> * 2, exp_d = exp_d r + precision\<rparr>;
          c = Cmp r2 (Abs d2)
      in if c < 0 then q
         else if sgn (value_d d) * sgn (value_d d2) < 0
           then Sub q \<lparr>value_d = 1, exp_d = - precision\<rparr>
           else Add q \<lparr>value_d = 1, exp_d = - precision\<rparr>)"

text \<open>The package variable \<open>DivisionPrecision\<close>; the repository never assigns it.\<close>

definition DivisionPrecision :: int where
  "DivisionPrecision = 16"

definition Div :: "Decimal \<Rightarrow> Decimal \<Rightarrow> Decimal" where
  "Div d d2 = DivRound d d2 DivisionPrecision"

section \<open>TokenAmount\<close>

text \<open>\<open>Decimals\<close> is an int32 in the source; it counts fractional digits, and the
  precisions of the repository are the uint8 of a \<open>NetworkConfig\<close> or the literal 18,
  so the model takes a natural number.\<close>

record TokenAmount =
  Amount :: Decimal
  Decimals :: nat

definition ToWei :: "TokenAmount \<Rightarrow> int" where
  "ToWei ta =
     (let multiplier = Pow (NewFromInt 10) (Decimals ta);
          wei = Mul (Amount ta) multiplier
      in BigInt wei)"

definition FromWei :: "int \<Rightarrow> nat \<Rightarrow> TokenAmount" where
  "FromWei wei decimals =
     (let divisor = Pow (NewFromInt 10) decimals;
          amount = Div (NewFromBigInt wei 0) divisor
      in \<lparr>Amount = amount, Decimals = decimals\<rparr>)"

text \<open>The number a decimal denotes, and truncation of a rational towards zero.\<close>

definition dval :: "Decimal \<Rightarrow> rat" where
  "dval d = of_int (value_d d) * 10 powi exp_d d"

definition rtrunc :: "rat \<Rightarrow> int" where
  "rtrunc r = (if 0 \<le> r then \<lfloor>r\<rfloor> else \<lceil>r\<rceil>)"

datatype error = Errorf string "arg list" | External string | Panic string
  and arg = AErr error | AUint nat | AStr string | AHash "8 word list"

text \<open>\<open>Errorf\<close> is \<open>fmt.Errorf\<close> with its format string and arguments, \<open>External\<close> an
  error value made outside the repository, and \<open>Panic\<close> a run-time panic, which unwinds
  through every caller instead of being returned.\<close>

text \<open>\<open>ParseTokenAmount\<close> hands the string to the package's parser
  \<open>decimal.NewFromString\<close>, taken here as the parameter \<open>parse\<close>, and stores what it
  returns together with the precision.\<close>

definition ParseTokenAmount :: "(string \<Rightarrow> error + Decimal) \<Rightarrow> string \<Rightarrow> nat \<Rightarrow> error + TokenAmount" where
  "ParseTokenAmount parse amountStr decimals =
     (case parse amountStr of
        Inl err \<Rightarrow> Inl (Errorf ''invalid amount format: %w'' [AErr err])
      | Inr amount \<Rightarrow> Inr \<lparr>Amount = amount, Decimals = decimals\<rparr>)"

section \<open>Network table\<close>

type_synonym Duration = int

definition Second :: Duration where
  "Second = 1000000000"

definition Minute :: Duration where
  "Minute = 60 * Second"

record NetworkConfig =
  ChainID :: nat
  Name :: string
  RPCEndpoints :: "string list"
  ContractAddress :: nat
  BlockTime :: Duration
  GasLimit :: nat
  MaxGasPrice :: nat
  IsTestnet :: bool
  Decimals_n :: nat

text \<open>The Go map \<open>SupportedNetworks\<close> as an association list. A Go map is ranged over in
  an unspecified order; the chain IDs of the table are pairwise distinct, so a lookup by
  chain ID finds the same entry in any order.\<close>

definition SupportedNetworks :: "(string \<times> NetworkConfig) list" where
  "SupportedNetworks =
    [(''BaseMainnet'',
      \<lparr>ChainID = 8453, Name = ''Base'',
       RPCEndpoints = [''https://mainnet.base.org'', ''https://base.llamarpc.com''],
       ContractAddress = 0x18Bc5bcC660cf2B9cE3cd51a404aFe1a0cBD3C22,
       BlockTime = 2 * Second, GasLimit = 3000000, MaxGasPrice = 10000000000,
       IsTestnet = False, Decimals_n = 2\<rparr>),
     (''PolygonMainnet'',
      \<lparr>ChainID = 137, Name = ''Polygon'',
       RPCEndpoints = [''https://polygon-rpc.com'', ''https://polygon.llamarpc.com''],
       ContractAddress = 0x649a2DA7B28E0D54c13D5eFf95d3A660652742cC,
       BlockTime = 2 * Second, GasLimit = 3000000, MaxGasPrice = 50000000000,
       IsTestnet = False, Decimals_n = 0\<rparr>),
     (''BSCMainnet'',
      \<lparr>ChainID = 56, Name = ''BNB Smart Chain'',
       RPCEndpoints = [''https://bsc-dataseed.binance.org'', ''https://binance.llamarpc.com''],
       ContractAddress = 0x649a2DA7B28E0D54c13D5eFf95d3A660652742cC,
       BlockTime = 3 * Second, GasLimit = 3000000, MaxGasPrice = 5000000000,
       IsTestnet = False, Decimals_n = 0\<rparr>),
     (''LiskMainnet'',
      \<lparr>ChainID = 1135, Name = ''Lisk'',
       RPCEndpoints = [''https://rpc.api.lisk.com''],
       ContractAddress = 0x18Bc5bcC660cf2B9cE3cd51a404aFe1a0cBD3C22,
       BlockTime = 2 * Second, GasLimit = 3000000, MaxGasPrice = 1000000000,
       IsTestnet = False, Decimals_n = 2\<rparr>),
     (''KaiaMainnet'',
      \<lparr>ChainID = 8217, Name = ''Kaia'',
       RPCEndpoints = [''https://public-en.node.kaia.io''],
       ContractAddress = 0x18Bc5bcC660cf2B9cE3cd51a404aFe1a0cBD3C22,
       BlockTime = 2 * Second, GasLimit = 3000000, MaxGasPrice = 1000000000,
       IsTestnet = False, Decimals_n = 2\<rparr>),
     (''WorldChainMainnet'',
      \<lparr>ChainID = 480, Name = ''World Chain'',
       RPCEndpoints = [''https://worldchain-mainnet.g.alchemy.com/public''],
       ContractAddress = 0x18Bc5bcC660cf2B9cE3cd51a404aFe1a0cBD3C22,
       BlockTime = 2 * Second, GasLimit = 3000000, MaxGasPrice = 1000000000,
       IsTestnet = False, Decimals_n = 2\<rparr>),
     (''EtherlinkMainnet'',
      \<lparr>ChainID = 42793, Name = ''Etherlink'',
       RPCEndpoints = [''https://node.mainnet.etherlink.com''],
       ContractAddress = 0x18bc5bcc660cf2b9ce3cd51a404afe1a0cbd3c22,
       BlockTime = 2 * Second, GasLimit = 30000000, MaxGasPrice = 1000000000,
       IsTestnet = False, Decimals_n = 2\<rparr>),
     (''GnosisMainnet'',
      \<lparr>ChainID = 100, Name = ''Gnosis'',
       RPCEndpoints = [''https://rpc.gnosischain.com'', ''https://0xrpc.io/gno''],
       ContractAddress = 0x18bc5bcc660cf2b9ce3cd51a404afe1a0cbd3c22,
       BlockTime = 5 * Second, GasLimit = 3000000, MaxGasPrice = 500000000,
       IsTestnet = False, Decimals_n = 2\<rparr>)]"

definition GetNetworkConfigByChainID :: "nat \<Rightarrow> (NetworkConfig \<times> string) option" where
  "GetNetworkConfigByChainID chainID =
     (case find (\<lambda>(networkName, config). ChainID config = chainID) SupportedNetworks of
        Some (networkName, config) \<Rightarrow> Some (config, networkName)
      | None \<Rightarrow> None)"

definition IsChainSupported :: "nat \<Rightarrow> bool" where
  "IsChainSupported chainID =
     list_ex (\<lambda>(networkName, config). ChainID config = chainID) SupportedNetworks"

section \<open>Receipts and the event topic\<close>

type_synonym Hash = "8 word list"

record Log =
  Topics :: "Hash list"
  Data :: "8 word list"

record Receipt =
  Status :: nat
  Logs :: "Log list"

record Transaction =
  TxHash :: Hash

definition ReceiptStatusSuccessful :: nat where
  "ReceiptStatusSuccessful = 1"

text \<open>\<open>common.HexToHash\<close> of go-ethereum, after the package: the optional \<open>0x\<close> is
  dropped, an odd number of digits gets a leading \<open>0\<close>, the digit pairs are decoded up to
  the first character that is no hex digit, and the bytes are right-aligned in 32 bytes
  (cropped from the left when there are more).\<close>

definition HashLength :: nat where
  "HashLength = 32"

definition fromHexChar :: "char \<Rightarrow> 8 word option" where
  "fromHexChar c =
     (let n = (of_char c :: nat) in
      if 48 \<le> n \<and> n \<le> 57 then Some (of_nat (n - 48))
      else if 97 \<le> n \<and> n \<le> 102 then Some (of_nat (n - 87))
      else if 65 \<le> n \<and> n \<le> 70 then Some (of_nat (n - 55))
      else None)"

fun hexDecode :: "string \<Rightarrow> 8 word list" where
  "hexDecode (a # b # rest) =
     (case (fromHexChar a, fromHexChar b) of
        (Some x, Some y) \<Rightarrow> (x * 16 + y) # hexDecode rest
      | _ \<Rightarrow> [])"
| "hexDecode _ = []"

definition has0xPrefix :: "string \<Rightarrow> bool" where
  "has0xPrefix str = (length str \<ge> 2 \<and> str ! 0 = CHR ''0'' \<and> (str ! 1 = CHR ''x'' \<or> str ! 1 = CHR ''X''))"

definition FromHex :: "string \<Rightarrow> 8 word list" where
  "FromHex s =
     (let s1 = (if has0xPrefix s then drop 2 s else s);
          s2 = (if length s1 mod 2 = 1 then CHR ''0'' # s1 else s1)
      in hexDecode s2)"

definition BytesToHash :: "8 word list \<Rightarrow> Hash" where
  "BytesToHash b =
     (let b1 = (if length b > HashLength then drop (length b - HashLength) b else b)
      in replicate (HashLength - length b1) 0 @ b1)"

definition HexToHash :: "string \<Rightarrow> Hash" where
  "HexToHash s = BytesToHash (FromHex s)"

definition burnBridgeTopic :: Hash where
  "burnBridgeTopic = HexToHash ''0x''"

text \<open>The loop of \<open>extractBridgeNonceFromReceipt\<close> over \<open>receipt.Logs\<close>; the value it
  returns is \<open>big.NewInt(0)\<close>.\<close>

fun extractFromLogs :: "Log list \<Rightarrow> error + int" where
  "extractFromLogs [] = Inl (Errorf ''bridge nonce not found in transaction receipt'' [])"
| "extractFromLogs (lg # logs) =
     (if length (Topics lg) > 0 \<and> Topics lg ! 0 = burnBridgeTopic then Inr 0
      else extractFromLogs logs)"

definition extractBridgeNonceFromReceipt :: "Receipt \<Rightarrow> error + int" where
  "extractBridgeNonceFromReceipt receipt = extractFromLogs (Logs receipt)"


section \<open>The client and the world outside\<close>

text \<open>
  Connections, contract bindings and keys are handles (natural numbers). Every call that
  leaves the process is recorded as an event, in order; the trace of events is threaded
  through the functions below. What a call returns is decided by the \<open>world\<close>, as a
  function of the trace up to and including the call, so the same request may be answered
  differently each time it is made.
\<close>

record TransactOpts =
  Signer :: nat
  GasLimit_t :: nat
  GasPrice :: "nat option"

datatype event =
    EvDial string Duration
  | EvNewIDRX nat nat
  | EvChainID nat "Duration option"
  | EvReceipt nat Hash Duration
  | EvBurnBridge nat TransactOpts int nat
  | EvMintBridge nat TransactOpts nat int nat int

text \<open>
  \<^item> \<open>EvDial endpoint timeout\<close>: \<open>ethclient.DialContext\<close> under a context with that timeout;
  \<^item> \<open>EvNewIDRX address client\<close>: \<open>contracts.NewIDRX\<close>;
  \<^item> \<open>EvChainID client timeout\<close>: \<open>client.ChainID\<close>, with the timeout the call site puts on
    its context, \<open>None\<close> when it passes the caller's context on;
  \<^item> \<open>EvReceipt client txHash t\<close>: \<open>client.TransactionReceipt\<close>, issued \<open>t\<close> nanoseconds
    after the wait began;
  \<^item> \<open>EvBurnBridge contract transactor wei toChainID\<close>: \<open>contract.BurnBridge\<close> is
    called; the binding packs, signs and sends the burn transaction and returns it, or
    returns an error and sends nothing;
  \<^item> \<open>EvMintBridge contract transactor to wei fromChainID nonce\<close>:
    \<open>contract.MintBridge\<close> is called, likewise.
\<close>

record world =
  HexToECDSA :: "string \<Rightarrow> error + nat"
  PublicKeyOK :: "nat \<Rightarrow> bool"
  PubkeyToAddress :: "nat \<Rightarrow> nat"
  DialContext :: "event list \<Rightarrow> error + nat"
  NewIDRX :: "event list \<Rightarrow> error + nat"
  eth_ChainID :: "event list \<Rightarrow> error + nat"
  eth_TransactionReceipt :: "event list \<Rightarrow> error + Receipt"
  NewKeyedTransactorErr :: "nat \<Rightarrow> error option"
  contract_BurnBridge :: "event list \<Rightarrow> error + Transaction"
  contract_MintBridge :: "event list \<Rightarrow> error + Transaction"
  select_tick :: "event list \<Rightarrow> bool"

record Client =
  clients :: "nat \<rightharpoonup> nat list"
  contracts :: "nat \<rightharpoonup> nat"
  privateKey :: nat
  address :: nat
  timeout :: Duration

record ClientConfig =
  PrivateKeyHex :: string
  Timeout :: Duration

subsection \<open>NewClient and initializeNetworks\<close>

text \<open>The inner loop of \<open>initializeNetworks\<close> over the endpoints of one network, with
  the variables \<open>ethClients\<close> and \<open>contractInstance\<close>. A failed dial is printed and
  skipped.\<close>

fun dialEndpoints ::
  "world \<Rightarrow> Duration \<Rightarrow> NetworkConfig \<Rightarrow> string list \<Rightarrow> nat list \<Rightarrow> nat option \<Rightarrow> event list
     \<Rightarrow> (error + nat list \<times> nat option) \<times> event list" where
  "dialEndpoints w tmo networkConfig [] ethClients contractInstance h =
     (Inr (ethClients, contractInstance), h)"
| "dialEndpoints w tmo networkConfig (rpcEndpoint # rest) ethClients contractInstance h =
     (let h1 = h @ [EvDial rpcEndpoint tmo] in
      case DialContext w h1 of
        Inl err \<Rightarrow> dialEndpoints w tmo networkConfig rest ethClients contractInstance h1
      | Inr ethClient \<Rightarrow>
          (case contractInstance of
             Some inst \<Rightarrow>
               dialEndpoints w tmo networkConfig rest (ethClients @ [ethClient]) contractInstance h1
           | None \<Rightarrow>
               (let h2 = h1 @ [EvNewIDRX (ContractAddress networkConfig) ethClient] in
                case NewIDRX w h2 of
                  Inl err \<Rightarrow>
                    (Inl (Errorf ''failed to create contract instance for %s: %w''
                            [AStr (Name networkConfig), AErr err]), h2)
                | Inr inst \<Rightarrow>
                    dialEndpoints w tmo networkConfig rest (ethClients @ [ethClient]) (Some inst) h2)))"

text \<open>The outer loop, over the networks in the order \<open>nets\<close> in which the Go map happens
  to be ranged over. \<open>contractInstance\<close> is set as soon as \<open>ethClients\<close> is not empty.\<close>

fun initializeNetworks ::
  "world \<Rightarrow> (string \<times> NetworkConfig) list \<Rightarrow> Client \<Rightarrow> event list \<Rightarrow> (error + Client) \<times> event list" where
  "initializeNetworks w [] c h = (Inr c, h)"
| "initializeNetworks w ((networkName, networkConfig) # nets) c h =
     (if ContractAddress networkConfig = 0 then initializeNetworks w nets c h
      else
        case dialEndpoints w (timeout c) networkConfig (RPCEndpoints networkConfig) [] None h of
          (Inl err, h1) \<Rightarrow> (Inl err, h1)
        | (Inr (ethClients, contractInstance), h1) \<Rightarrow>
            if length ethClients = 0
            then (Inl (Errorf ''failed to connect to any RPC endpoint for %s''
                         [AStr (Name networkConfig)]), h1)
            else
              initializeNetworks w nets
                (c\<lparr>clients := (clients c)(ChainID networkConfig \<mapsto> ethClients),
                   contracts := (case contractInstance of
                                   Some inst \<Rightarrow> (contracts c)(ChainID networkConfig \<mapsto> inst)
                                 | None \<Rightarrow> contracts c)\<rparr>) h1)"

definition NewClient ::
  "world \<Rightarrow> (string \<times> NetworkConfig) list \<Rightarrow> ClientConfig \<Rightarrow> event list \<Rightarrow> (error + Client) \<times> event list" where
  "NewClient w nets config h =
     (case HexToECDSA w (PrivateKeyHex config) of
        Inl err \<Rightarrow> (Inl (Errorf ''failed to parse private key: %w'' [AErr err]), h)
      | Inr key \<Rightarrow>
          if \<not> PublicKeyOK w key
          then (Inl (Errorf ''failed to cast public key to ECDSA public key'' []), h)
          else
            let client = \<lparr>clients = Map.empty, contracts = Map.empty, privateKey = key,
                          address = PubkeyToAddress w key, timeout = Timeout config\<rparr>;
                client = (if timeout client = 0 then client\<lparr>timeout := 30 * Second\<rparr> else client)
            in (case initializeNetworks w nets client h of
                  (Inl err, h1) \<Rightarrow> (Inl (Errorf ''failed to initialize networks: %w'' [AErr err]), h1)
                | (Inr client1, h1) \<Rightarrow> (Inr client1, h1)))"

subsection \<open>GetClient, GetContract, CreateTransactor\<close>

text \<open>The failover loop of \<open>GetClient\<close> over the held connections.\<close>

fun probeClients :: "world \<Rightarrow> nat \<Rightarrow> nat list \<Rightarrow> event list \<Rightarrow> (error + nat) \<times> event list" where
  "probeClients w chainID [] h =
     (Inl (Errorf ''no available clients for chain ID %d'' [AUint chainID]), h)"
| "probeClients w chainID (client # rest) h =
     (let h1 = h @ [EvChainID client (Some (5 * Second))] in
      case eth_ChainID w h1 of
        Inr _ \<Rightarrow> (Inr client, h1)
      | Inl err \<Rightarrow> probeClients w chainID rest h1)"

definition GetClient :: "world \<Rightarrow> Client \<Rightarrow> nat \<Rightarrow> event list \<Rightarrow> (error + nat) \<times> event list" where
  "GetClient w c chainID h =
     (case clients c chainID of
        None \<Rightarrow> (Inl (Errorf ''chain ID %d not supported or not connected'' [AUint chainID]), h)
      | Some cls \<Rightarrow> probeClients w chainID cls h)"

definition GetContract :: "Client \<Rightarrow> nat \<Rightarrow> error + nat" where
  "GetContract c chainID =
     (case contracts c chainID of
        None \<Rightarrow> Inl (Errorf ''IDRX contract not available for chain ID %d'' [AUint chainID])
      | Some contract \<Rightarrow> Inr contract)"

text \<open>\<open>big.Int.Uint64\<close>: the low 64 bits of a chain ID, which the node reports as an
  unbounded number.\<close>

definition Uint64 :: "nat \<Rightarrow> nat" where
  "Uint64 x = x mod 2 ^ 64"

text \<open>\<open>bind.NewKeyedTransactorWithChainID\<close>: a signer bound to the given chain ID.\<close>

definition NewKeyedTransactorWithChainID :: "world \<Rightarrow> nat \<Rightarrow> nat \<Rightarrow> error + TransactOpts" where
  "NewKeyedTransactorWithChainID w key chainID =
     (case NewKeyedTransactorErr w chainID of
        Some err \<Rightarrow> Inl err
      | None \<Rightarrow> Inr \<lparr>Signer = chainID, GasLimit_t = 0, GasPrice = None\<rparr>)"

definition CreateTransactor ::
  "world \<Rightarrow> Client \<Rightarrow> nat \<Rightarrow> event list \<Rightarrow> (error + TransactOpts) \<times> event list" where
  "CreateTransactor w c chainID h =
     (case GetClient w c chainID h of
        (Inl err, h1) \<Rightarrow> (Inl err, h1)
      | (Inr client, h1) \<Rightarrow>
          (let h2 = h1 @ [EvChainID client None] in
           case eth_ChainID w h2 of
             Inl err \<Rightarrow> (Inl (Errorf ''failed to get chain ID: %w'' [AErr err]), h2)
           | Inr clientChainID \<Rightarrow>
               if Uint64 clientChainID \<noteq> chainID
               then (Inl (Errorf ''client chain ID %d does not match requested chain ID %d''
                            [AUint (Uint64 clientChainID), AUint chainID]), h2)
               else
                 (case NewKeyedTransactorWithChainID w (privateKey c) clientChainID of
                    Inl err \<Rightarrow> (Inl (Errorf ''failed to create transactor: %w'' [AErr err]), h2)
                  | Inr transactor \<Rightarrow>
                      (case GetNetworkConfigByChainID chainID of
                         Some (networkConfig, networkName) \<Rightarrow>
                           (let transactor = transactor\<lparr>GasLimit_t := GasLimit networkConfig\<rparr>;
                                transactor =
                                  (if MaxGasPrice networkConfig > 0
                                   then transactor\<lparr>GasPrice := Some (MaxGasPrice networkConfig)\<rparr>
                                   else transactor)
                            in (Inr transactor, h2))
                       | None \<Rightarrow> (Inr transactor, h2)))))"


subsection \<open>WaitForTransaction\<close>

text \<open>
  Time is counted in nanoseconds from the moment the timeout context and the ticker are
  made. The ticker fires at the multiples of \<open>interval\<close>; the context is done at
  \<open>deadline\<close>. \<open>waitLoop\<close> is the \<open>for\<close>/\<open>select\<close> loop about to wait for tick number
  \<open>k + 1\<close>: when the context is done before that tick the timeout branch runs; when both
  fall on the same instant Go's \<open>select\<close> picks either branch, which \<open>select_tick\<close>
  decides. A poll is taken to return before the next tick. \<open>time.NewTicker\<close> panics on
  an interval that is not positive, so the loop is only ever entered with a positive one.
\<close>

function waitLoop ::
  "world \<Rightarrow> nat \<Rightarrow> Hash \<Rightarrow> Duration \<Rightarrow> Duration \<Rightarrow> nat \<Rightarrow> event list \<Rightarrow> (error + Receipt) \<times> event list" where
  "waitLoop w client txHash interval deadline k h =
     (let t = (int k + 1) * interval in
      if interval \<le> 0 \<or> deadline < t \<or> (deadline = t \<and> \<not> select_tick w h)
      then (Inl (Errorf ''timeout waiting for transaction %s'' [AHash txHash]), h)
      else
        (let h1 = h @ [EvReceipt client txHash t] in
         case eth_TransactionReceipt w h1 of
           Inr receipt \<Rightarrow> (Inr receipt, h1)
         | Inl err \<Rightarrow> waitLoop w client txHash interval deadline (Suc k) h1))"
  by pat_completeness auto
termination
proof (relation "measure (\<lambda>(w, client, txHash, interval, deadline, k, h). nat (deadline - int k * interval))")
  show "wf (measure (\<lambda>(w, client, txHash, interval, deadline, k, h). nat (deadline - int k * interval)))"
    by simp
next
  fix w :: world and client :: nat and txHash :: Hash and interval deadline :: Duration
    and k :: nat and h :: "event list" and x xa x1
  assume x: "x = (int k + 1) * interval"
    and go: "\<not> (interval \<le> 0 \<or> deadline < x \<or> deadline = x \<and> \<not> select_tick w h)"
  from go have pos: "0 < interval" and le: "x \<le> deadline" by auto
  have "int (Suc k) * interval = int k * interval + interval"
    by (simp add: algebra_simps)
  with x le pos have "0 \<le> deadline - int (Suc k) * interval"
    and "deadline - int (Suc k) * interval < deadline - int k * interval"
    by (simp_all add: algebra_simps)
  then show "((w, client, txHash, interval, deadline, Suc k, xa), (w, client, txHash, interval, deadline, k, h))
      \<in> measure (\<lambda>(w, client, txHash, interval, deadline, k, h). nat (deadline - int k * interval))"
    by simp
qed

declare waitLoop.simps [simp del]

text \<open>Go's int64 multiplication wraps around.\<close>

definition mul64 :: "int \<Rightarrow> int \<Rightarrow> int" where
  "mul64 a b = sint (word_of_int (a * b) :: 64 word)"

text \<open>\<open>ctx\<close> is the instant at which the caller's context is done, \<open>None\<close> when it never
  is. When the chain has no entry in the table, the timeout keeps its default of five
  minutes, \<open>networkConfig\<close> is nil, and reading its block time for the ticker panics.\<close>

definition WaitForTransaction ::
  "world \<Rightarrow> Client \<Rightarrow> Duration option \<Rightarrow> nat \<Rightarrow> Hash \<Rightarrow> event list \<Rightarrow> (error + Receipt) \<times> event list" where
  "WaitForTransaction w c ctx chainID txHash h =
     (case GetClient w c chainID h of
        (Inl err, h1) \<Rightarrow> (Inl err, h1)
      | (Inr client, h1) \<Rightarrow>
          (case GetNetworkConfigByChainID chainID of
             None \<Rightarrow>
               (let timeout = 5 * Minute
                in (Inl (Panic ''invalid memory address or nil pointer dereference''), h1))
           | Some (networkConfig, networkName) \<Rightarrow>
               (let timeout = 5 * Minute;
                    timeout = mul64 (BlockTime networkConfig) 10;
                    timeout = (if timeout < Minute then Minute else timeout);
                    deadline = (case ctx of None \<Rightarrow> timeout | Some d \<Rightarrow> min d timeout);
                    interval = Quo (BlockTime networkConfig) 2
                in if interval \<le> 0
                   then (Inl (Panic ''non-positive interval for NewTicker''), h1)
                   else waitLoop w client txHash interval deadline 0 h1)))"

subsection \<open>The bridge\<close>

record BridgeRequest =
  Amount_r :: TokenAmount
  ToChainID :: nat
  ToAddress :: nat
  FromChainID :: nat

definition BurnBridge ::
  "world \<Rightarrow> Client \<Rightarrow> BridgeRequest \<Rightarrow> event list \<Rightarrow> (error + Transaction) \<times> event list" where
  "BurnBridge w c request h =
     (case GetContract c (FromChainID request) of
        Inl err \<Rightarrow> (Inl err, h)
      | Inr contract \<Rightarrow>
          (case CreateTransactor w c (FromChainID request) h of
             (Inl err, h1) \<Rightarrow> (Inl err, h1)
           | (Inr transactor, h1) \<Rightarrow>
               (let h2 = h1 @ [EvBurnBridge contract transactor (ToWei (Amount_r request))
                                  (ToChainID request)] in
                case contract_BurnBridge w h2 of
                  Inl err \<Rightarrow> (Inl (Errorf ''failed to burn for bridge: %w'' [AErr err]), h2)
                | Inr tx \<Rightarrow> (Inr tx, h2))))"

definition MintBridge ::
  "world \<Rightarrow> Client \<Rightarrow> nat \<Rightarrow> nat \<Rightarrow> TokenAmount \<Rightarrow> nat \<Rightarrow> int \<Rightarrow> event list
     \<Rightarrow> (error + Transaction) \<times> event list" where
  "MintBridge w c chainID to amount fromChainID bridgeNonce h =
     (case GetContract c chainID of
        Inl err \<Rightarrow> (Inl err, h)
      | Inr contract \<Rightarrow>
          (case CreateTransactor w c chainID h of
             (Inl err, h1) \<Rightarrow> (Inl err, h1)
           | (Inr transactor, h1) \<Rightarrow>
               (let h2 = h1 @ [EvMintBridge contract transactor to (ToWei amount) fromChainID
                                  bridgeNonce] in
                case contract_MintBridge w h2 of
                  Inl err \<Rightarrow> (Inl (Errorf ''failed to mint bridge tokens: %w'' [AErr err]), h2)
                | Inr tx \<Rightarrow> (Inr tx, h2))))"

text \<open>\<open>fmt.Errorf\<close> with \<open>%w\<close> around an error a callee returned; a panic in the callee
  is not a returned error and passes through.\<close>

fun wrapErr :: "string \<Rightarrow> error \<Rightarrow> error" where
  "wrapErr msg (Panic p) = Panic p"
| "wrapErr msg err = Errorf msg [AErr err]"

text \<open>\<open>CompleteBridge\<close> returns a Go \<open>error\<close>: \<open>None\<close> is \<open>nil\<close>.\<close>

definition CompleteBridge ::
  "world \<Rightarrow> Client \<Rightarrow> Duration option \<Rightarrow> BridgeRequest \<Rightarrow> event list \<Rightarrow> error option \<times> event list" where
  "CompleteBridge w c ctx request h =
     (case BurnBridge w c request h of
        (Inl err, h1) \<Rightarrow> (Some (wrapErr ''failed to burn on source chain: %w'' err), h1)
      | (Inr burnTx, h1) \<Rightarrow>
          (case WaitForTransaction w c ctx (FromChainID request) (TxHash burnTx) h1 of
             (Inl err, h2) \<Rightarrow> (Some (wrapErr ''burn transaction failed: %w'' err), h2)
           | (Inr receipt, h2) \<Rightarrow>
               if Status receipt \<noteq> ReceiptStatusSuccessful
               then (Some (Errorf ''burn transaction reverted'' []), h2)
               else
                 (case extractBridgeNonceFromReceipt receipt of
                    Inl err \<Rightarrow> (Some (wrapErr ''failed to extract bridge nonce: %w'' err), h2)
                  | Inr bridgeNonce \<Rightarrow>
                      (case MintBridge w c (ToChainID request) (ToAddress request)
                              (Amount_r request) (FromChainID request) bridgeNonce h2 of
                         (Inl err, h3) \<Rightarrow>
                           (Some (wrapErr ''failed to mint on destination chain: %w'' err), h3)
                       | (Inr mintTx, h3) \<Rightarrow> (None, h3)))))"


section \<open>Reading traces and errors\<close>

text \<open>Which events are calls of the burn or of the mint binding.\<close>

fun isBurn :: "event \<Rightarrow> bool" where
  "isBurn (EvBurnBridge contract transactor wei toChainID) = True"
| "isBurn _ = False"

fun isMint :: "event \<Rightarrow> bool" where
  "isMint (EvMintBridge contract transactor to wei fromChainID nonce) = True"
| "isMint _ = False"

text \<open>The numbers an error value holds: the numeric arguments of its \<open>fmt.Errorf\<close>
  calls, those of the errors it wraps included.\<close>

primrec error_numbers :: "error \<Rightarrow> nat list" and arg_numbers :: "arg \<Rightarrow> nat list" where
  "error_numbers (Errorf fmt args) = concat (map arg_numbers args)"
| "error_numbers (External msg) = []"
| "error_numbers (Panic msg) = []"
| "arg_numbers (AErr err) = error_numbers err"
| "arg_numbers (AUint n) = [n]"
| "arg_numbers (AStr s) = []"
| "arg_numbers (AHash x) = []"

section \<open>Example worlds\<close>

text \<open>\<open>crypto.HexToECDSA\<close> of go-ethereum, after the package: the string must be hex
  digits, an even number of them, 32 bytes in all, and denote a number from 1 to below the
  order of the curve secp256k1. The key is that number.\<close>

definition secp256k1_N :: nat where
  "secp256k1_N = 0xFFFFFFFFFFFFFFFFFFFFFFFFFFFFFFFEBAAEDCE6AF48A03BBFD25E8CD0364141"

definition crypto_HexToECDSA :: "string \<Rightarrow> error + nat" where
  "crypto_HexToECDSA hexkey =
     (if \<not> list_all (\<lambda>c. fromHexChar c \<noteq> None) hexkey
      then Inl (External ''invalid hex character in private key'')
      else if length hexkey mod 2 = 1
      then Inl (External ''invalid hex data for private key'')
      else
        (let b = hexDecode hexkey in
         if 8 * length b \<noteq> 256 then Inl (External ''invalid length, need 256 bits'')
         else
           (let D = foldl (\<lambda>a x. a * 256 + unat x) 0 b in
            if D \<ge> secp256k1_N then Inl (External ''invalid private key, >=N'')
            else if D = 0 then Inl (External ''invalid private key, zero or negative'')
            else Inr D)))"

text \<open>The private key 1 in 64 hex digits, and the address that belongs to it.\<close>

definition example_key :: string where
  "example_key = ''0000000000000000000000000000000000000000000000000000000000000001''"

definition example_address :: nat where
  "example_address = 0x7E5F4552091A69125d5DfCb7b8C2659029395Bdf"

text \<open>A concrete world and client on which the functions above are run: two held
  connections (1 and 2) for Base, one (3) for Polygon, nodes that report the chain ID of
  their chain, and a burn receipt whose only log has the all-zero first topic.\<close>

definition example_receipt :: Receipt where
  "example_receipt =
     \<lparr>Status = 1, Logs = [\<lparr>Topics = [replicate 32 0], Data = replicate 31 0 @ [7]\<rparr>]\<rparr>"

definition example_world :: world where
  "example_world =
     \<lparr>HexToECDSA = crypto_HexToECDSA, PublicKeyOK = (\<lambda>key. True),
      PubkeyToAddress = (\<lambda>key. example_address),
      DialContext = (\<lambda>h. Inr (length h)), NewIDRX = (\<lambda>h. Inr (length h)),
      eth_ChainID = (\<lambda>h. case last h of
                            EvChainID client t \<Rightarrow> Inr (if client = 3 then 137 else 8453)
                          | _ \<Rightarrow> Inl (External ''bad request'')),
      eth_TransactionReceipt = (\<lambda>h. Inr example_receipt),
      NewKeyedTransactorErr = (\<lambda>chainID. None),
      contract_BurnBridge = (\<lambda>h. Inr \<lparr>TxHash = replicate 32 1\<rparr>),
      contract_MintBridge = (\<lambda>h. Inr \<lparr>TxHash = replicate 32 2\<rparr>),
      select_tick = (\<lambda>h. False)\<rparr>"

definition example_client :: Client where
  "example_client =
     \<lparr>clients = [8453 \<mapsto> [1, 2], 137 \<mapsto> [3]], contracts = [8453 \<mapsto> 10, 137 \<mapsto> 11],
      privateKey = 1, address = example_address, timeout = 30 * Second\<rparr>"

text \<open>The client \<open>NewClient\<close> builds in the example world from a configuration with a
  timeout of 10 seconds.\<close>

definition example_constructed :: "(error + Client) \<times> event list" where
  "example_constructed =
     NewClient example_world SupportedNetworks
       \<lparr>PrivateKeyHex = example_key, Timeout = 10 * Second\<rparr> []"

text \<open>The example world with a chain on which the receipt never appears.\<close>

definition silent_world :: world where
  "silent_world = example_world\<lparr>eth_TransactionReceipt := (\<lambda>h. Inl (External ''not found''))\<rparr>"

text \<open>A request to bridge 500 units from Base (precision 2) to Polygon; the example world
  with a burn that reverts, and with a destination contract that rejects the mint.\<close>

definition example_request :: BridgeRequest where
  "example_request =
     \<lparr>Amount_r = \<lparr>Amount = \<lparr>value_d = 500, exp_d = 0\<rparr>, Decimals = 2\<rparr>,
      ToChainID = 137, ToAddress = 99, FromChainID = 8453\<rparr>"

definition reverting_world :: world where
  "reverting_world = example_world\<lparr>eth_TransactionReceipt := (\<lambda>h. Inr \<lparr>Status = 0, Logs = []\<rparr>)\<rparr>"

definition mint_failing_world :: world where
  "mint_failing_world =
     example_world\<lparr>contract_MintBridge := (\<lambda>h. Inl (External ''execution reverted''))\<rparr>"

text \<open>Two more requests: zero units from Base to Base, and 1.999 units at precision 2.\<close>

definition same_chain_request :: BridgeRequest where
  "same_chain_request =
     \<lparr>Amount_r = \<lparr>Amount = \<lparr>value_d = 0, exp_d = 0\<rparr>, Decimals = 2\<rparr>,
      ToChainID = 8453, ToAddress = 99, FromChainID = 8453\<rparr>"

definition excess_digits_request :: BridgeRequest where
  "excess_digits_request =
     \<lparr>Amount_r = \<lparr>Amount = \<lparr>value_d = 1999, exp_d = - 3\<rparr>, Decimals = 2\<rparr>,
      ToChainID = 137, ToAddress = 99, FromChainID = 8453\<rparr>"

section \<open>Properties of the amount conversion\<close>

lemma Pow_ten: "Pow (NewFromInt 10) n = \<lparr>value_d = 10 ^ n, exp_d = 0\<rparr>"
  by (induction n) (simp_all add: NewFromInt_def Mul_def)

lemma rtrunc_of_int: "rtrunc (of_int n) = n"
  by (simp add: rtrunc_def)

lemma rtrunc_divide:
  assumes "0 < b"
  shows "rtrunc (of_int a / of_int b) = Quo a b"
proof (cases "0 \<le> a")
  case True
  with assms have "(0::rat) \<le> of_int a / of_int b" by simp
  moreover have "\<lfloor>(of_int a :: rat) / of_int b\<rfloor> = a div b"
    by (rule floor_divide_of_int_eq)
  ultimately show ?thesis using True assms
    by (cases "a = 0") (simp_all add: rtrunc_def Quo_def)
next
  case False
  then have neg: "a < 0" by simp
  with assms have "(of_int a :: rat) / of_int b < 0"
    by (simp add: divide_neg_pos)
  then have "rtrunc (of_int a / of_int b) = \<lceil>(of_int a :: rat) / of_int b\<rceil>"
    by (simp add: rtrunc_def)
  also have "\<dots> = - \<lfloor>(of_int (- a) :: rat) / of_int b\<rfloor>"
    by (simp add: ceiling_def)
  also have "\<dots> = - ((- a) div b)"
    by (simp only: floor_divide_of_int_eq)
  also have "\<dots> = Quo a b"
    using neg assms by (simp add: Quo_def)
  finally show ?thesis .
qed

lemma Quo_mult_cancel: "0 < b \<Longrightarrow> Quo (a * b) b = a"
  by (simp add: Quo_def sgn_mult abs_mult mult_sgn_abs)

lemma ToWei_unfold:
  "ToWei ta =
     (let v = value_d (Amount ta); e = exp_d (Amount ta); d = Decimals ta in
      if e = 0 then v * 10 ^ d
      else if 0 > e then Quo (v * 10 ^ d) (10 ^ nat (- e))
      else v * 10 ^ d * 10 ^ nat e)"
  by (simp add: ToWei_def Pow_ten Mul_def BigInt_def rescale_def Let_def)

lemma dval_scaled_nonneg:
  "0 \<le> exp_d a \<Longrightarrow> dval a * 10 ^ d = of_int (value_d a * 10 ^ d * 10 ^ nat (exp_d a))"
  by (simp add: dval_def power_int_def)

lemma dval_scaled_neg:
  "exp_d a < 0 \<Longrightarrow> dval a * 10 ^ d = of_int (value_d a * 10 ^ d) / of_int (10 ^ nat (- exp_d a))"
  by (simp add: dval_def power_int_def field_simps)

lemma ToWei_truncates: "ToWei ta = rtrunc (dval (Amount ta) * 10 ^ Decimals ta)"
proof (cases "0 \<le> exp_d (Amount ta)")
  case True
  then show ?thesis
    by (simp only: dval_scaled_nonneg rtrunc_of_int) (simp add: ToWei_unfold Let_def)
next
  case False
  then have neg: "exp_d (Amount ta) < 0" by simp
  have pos: "(0::int) < 10 ^ nat (- exp_d (Amount ta))" by simp
  show ?thesis
    using neg by (simp only: dval_scaled_neg [OF neg] rtrunc_divide [OF pos]) (simp add: ToWei_unfold Let_def)
qed

lemma ToWei_as_power:
  assumes "- exp_d (Amount ta) \<le> int (Decimals ta)"
  shows "ToWei ta = value_d (Amount ta) * 10 ^ nat (int (Decimals ta) + exp_d (Amount ta))"
proof (cases "0 \<le> exp_d (Amount ta)")
  case True
  then show ?thesis
    by (simp add: ToWei_unfold Let_def nat_add_distrib power_add)
next
  case False
  then have neg: "exp_d (Amount ta) < 0" by simp
  define k where "k = nat (- exp_d (Amount ta))"
  define v where "v = value_d (Amount ta)"
  have le: "k \<le> Decimals ta" using assms neg by (simp add: k_def)
  then have split: "(10::int) ^ Decimals ta = 10 ^ (Decimals ta - k) * 10 ^ k"
    by (simp flip: power_add)
  have "Quo (v * 10 ^ Decimals ta) (10 ^ k) = Quo (v * 10 ^ (Decimals ta - k) * 10 ^ k) (10 ^ k)"
    by (simp only: split mult.assoc)
  also have "\<dots> = v * 10 ^ (Decimals ta - k)"
    by (rule Quo_mult_cancel) simp
  finally have q: "Quo (v * 10 ^ Decimals ta) (10 ^ k) = v * 10 ^ (Decimals ta - k)" .
  have "nat (int (Decimals ta) + exp_d (Amount ta)) = Decimals ta - k"
    using neg le by (simp add: k_def)
  then show ?thesis
    using neg q by (simp add: ToWei_unfold Let_def k_def v_def)
qed

lemma ToWei_exact:
  assumes "- exp_d (Amount ta) \<le> int (Decimals ta)"
  shows "(of_int (ToWei ta) :: rat) = dval (Amount ta) * 10 ^ Decimals ta"
proof -
  define n where "n = nat (int (Decimals ta) + exp_d (Amount ta))"
  have e: "exp_d (Amount ta) = int n - int (Decimals ta)"
    using assms by (simp add: n_def)
  have "(10::rat) powi (int n - int (Decimals ta)) * 10 ^ Decimals ta = 10 ^ n"
    by (simp add: power_int_diff)
  then have "dval (Amount ta) * 10 ^ Decimals ta = of_int (value_d (Amount ta)) * 10 ^ n"
    by (simp add: dval_def e mult.assoc)
  then show ?thesis
    by (simp add: ToWei_as_power [OF assms] n_def)
qed

text \<open>
  Claim C6, as amended. \<open>ToWei\<close> is the amount times \<open>10 ^ Decimals\<close> truncated towards
  zero, computed on integers. For an amount with at most \<open>Decimals\<close> fractional digits
  the result is that product exactly. \<open>ParseTokenAmount\<close> stores whatever decimal the
  parser returns and never compares its digits with the precision, so digits beyond the
  precision are dropped by the truncation without an error.
\<close>

theorem ToWei_truncation:
  "ToWei ta = rtrunc (dval (Amount ta) * 10 ^ Decimals ta) \<and>
   (- exp_d (Amount ta) \<le> int (Decimals ta) \<longrightarrow>
      (of_int (ToWei ta) :: rat) = dval (Amount ta) * 10 ^ Decimals ta) \<and>
   (parse s = Inr a \<longrightarrow> ParseTokenAmount parse s d = Inr \<lparr>Amount = a, Decimals = d\<rparr>)"
proof (intro conjI impI)
  show "ToWei ta = rtrunc (dval (Amount ta) * 10 ^ Decimals ta)"
    by (rule ToWei_truncates)
next
  assume "- exp_d (Amount ta) \<le> int (Decimals ta)"
  then show "(of_int (ToWei ta) :: rat) = dval (Amount ta) * 10 ^ Decimals ta"
    by (rule ToWei_exact)
next
  assume "parse s = Inr a"
  then show "ParseTokenAmount parse s d = Inr \<lparr>Amount = a, Decimals = d\<rparr>"
    by (simp add: ParseTokenAmount_def)
qed

theorem ToWei_truncation_witness:
  "- exp_d \<lparr>value_d = 100050, exp_d = - 2\<rparr> \<le> int 2 \<and>
   (\<lambda>s. Inr \<lparr>value_d = 100050, exp_d = - 2\<rparr> :: error + Decimal) ''1000.50''
      = Inr \<lparr>value_d = 100050, exp_d = - 2\<rparr> \<and>
   (of_int (ToWei \<lparr>Amount = \<lparr>value_d = 100050, exp_d = - 2\<rparr>, Decimals = 2\<rparr>) :: rat)
      = dval \<lparr>value_d = 100050, exp_d = - 2\<rparr> * 10 ^ 2 \<and>
   ParseTokenAmount (\<lambda>s. Inr \<lparr>value_d = 100050, exp_d = - 2\<rparr>) ''1000.50'' 2
      = Inr \<lparr>Amount = \<lparr>value_d = 100050, exp_d = - 2\<rparr>, Decimals = 2\<rparr>"
proof -
  have h1: "- exp_d \<lparr>value_d = 100050, exp_d = - 2\<rparr> \<le> int 2" by simp
  have h2: "(\<lambda>s. Inr \<lparr>value_d = 100050, exp_d = - 2\<rparr> :: error + Decimal) ''1000.50''
      = Inr \<lparr>value_d = 100050, exp_d = - 2\<rparr>" by simp
  show ?thesis
    using h1 h2
      ToWei_truncation [of "\<lparr>Amount = \<lparr>value_d = 100050, exp_d = - 2\<rparr>, Decimals = 2\<rparr>"
        "\<lambda>s. Inr \<lparr>value_d = 100050, exp_d = - 2\<rparr>" "''1000.50''"
        "\<lparr>value_d = 100050, exp_d = - 2\<rparr>" 2]
    by simp
qed

text \<open>
  Claim C6 as stated fails: the amount 1.999 at precision 2 is converted to 199 base
  units, while 1.999 * 10 ^ 2 = 199.9 rounds to 200; the third fractional digit is
  dropped without an error.
\<close>

theorem ToWei_round_counterexample:
  "ToWei \<lparr>Amount = \<lparr>value_d = 1999, exp_d = - 3\<rparr>, Decimals = 2\<rparr> = 199 \<and>
   ToWei \<lparr>Amount = \<lparr>value_d = 1999, exp_d = - 3\<rparr>, Decimals = 2\<rparr>
     \<noteq> round (dval \<lparr>value_d = 1999, exp_d = - 3\<rparr> * 10 ^ 2)"
  by code_simp

text \<open>Within the division precision of the decimal package the round trip is exact.\<close>

lemma FromWei_unfold_small:
  assumes "int d \<le> DivisionPrecision"
  shows "Amount (FromWei w d) = \<lparr>value_d = w * 10 ^ (nat DivisionPrecision - d), exp_d = - DivisionPrecision\<rparr>"
proof -
  define k where "k = nat DivisionPrecision - d"
  have P: "DivisionPrecision = int k + int d"
    using assms by (simp add: k_def DivisionPrecision_def)
  have nP: "nat DivisionPrecision = k + d"
    using P by simp
  have ten: "(10::int) ^ nat DivisionPrecision = 10 ^ k * 10 ^ d"
    by (simp add: nP power_add)
  have q: "Quo (w * 10 ^ nat DivisionPrecision) (10 ^ d) = w * 10 ^ k"
    unfolding ten mult.assoc [symmetric] by (rule Quo_mult_cancel) simp
  then have r: "Rem (w * 10 ^ nat DivisionPrecision) (10 ^ d) = 0"
    by (simp add: Rem_def ten)
  have nonneg: "0 \<le> DivisionPrecision" by (simp add: DivisionPrecision_def)
  have qr: "QuoRem (NewFromBigInt w 0) \<lparr>value_d = 10 ^ d, exp_d = 0\<rparr> DivisionPrecision
      = (\<lparr>value_d = w * 10 ^ k, exp_d = - DivisionPrecision\<rparr>, \<lparr>value_d = 0, exp_d = - DivisionPrecision\<rparr>)"
    using nonneg by (simp add: QuoRem_def NewFromBigInt_def Let_def q r)
  have "DivRound (NewFromBigInt w 0) \<lparr>value_d = 10 ^ d, exp_d = 0\<rparr> DivisionPrecision
      = \<lparr>value_d = w * 10 ^ k, exp_d = - DivisionPrecision\<rparr>"
    by (simp add: DivRound_def qr Cmp_def RescalePair_def Abs_def)
  then show ?thesis
    by (simp add: FromWei_def Div_def Pow_ten k_def)
qed

lemma roundtrip_within_precision:
  assumes frac: "- exp_d x \<le> int d" and small: "int d \<le> DivisionPrecision"
  shows "Equal (Amount (FromWei (ToWei \<lparr>Amount = x, Decimals = d\<rparr>) d)) x"
proof -
  define n where "n = nat (int d + exp_d x)"
  define k where "k = nat DivisionPrecision - d"
  define m where "m = nat (exp_d x + DivisionPrecision)"
  have w: "ToWei \<lparr>Amount = x, Decimals = d\<rparr> = value_d x * 10 ^ n"
    using ToWei_as_power [of "\<lparr>Amount = x, Decimals = d\<rparr>"] frac by (simp add: n_def)
  have a: "Amount (FromWei (ToWei \<lparr>Amount = x, Decimals = d\<rparr>) d)
             = \<lparr>value_d = value_d x * 10 ^ n * 10 ^ k, exp_d = - DivisionPrecision\<rparr>"
    by (simp add: FromWei_unfold_small [OF small] w k_def)
  have le: "- DivisionPrecision \<le> exp_d x"
    using frac small by simp
  have nk: "n + k = m"
    using frac small by (simp add: n_def k_def m_def DivisionPrecision_def)
  have v: "value_d x * 10 ^ n * 10 ^ k = value_d x * 10 ^ m"
    by (simp add: mult.assoc nk flip: power_add)
  show ?thesis
  proof (cases "exp_d x = - DivisionPrecision")
    case True
    then have "m = 0" by (simp add: m_def)
    then show ?thesis
      using True by (simp add: a v Equal_def Cmp_def RescalePair_def)
  next
    case False
    with le have lt: "- DivisionPrecision < exp_d x" by simp
    then have "\<bar>- DivisionPrecision - exp_d x\<bar> = exp_d x + DivisionPrecision" by simp
    then show ?thesis
      using lt by (simp add: a v Equal_def Cmp_def RescalePair_def rescale_def m_def)
  qed
qed

text \<open>
  Claim C5. The round trip is not exact beyond the division precision: the amount
  0.000000000000000001 has 18 fractional digits, at precision 18 it is 1 base unit, and
  \<open>FromWei\<close> turns 1 base unit into 0, because \<open>Div\<close> rounds the quotient at 16
  fractional digits.
\<close>

theorem roundtrip_18_decimals_loses_amount:
  "ToWei \<lparr>Amount = \<lparr>value_d = 1, exp_d = - 18\<rparr>, Decimals = 18\<rparr> = 1 \<and>
   Amount (FromWei 1 18) = \<lparr>value_d = 0, exp_d = - 16\<rparr> \<and>
   \<not> Equal (Amount (FromWei (ToWei \<lparr>Amount = \<lparr>value_d = 1, exp_d = - 18\<rparr>, Decimals = 18\<rparr>) 18))
        \<lparr>value_d = 1, exp_d = - 18\<rparr>"
  by code_simp

section \<open>Nonce extraction\<close>

lemma burnBridgeTopic_zero: "burnBridgeTopic = replicate 32 0"
  by (simp add: burnBridgeTopic_def HexToHash_def BytesToHash_def FromHex_def has0xPrefix_def
      HashLength_def)

lemma extractFromLogs_cases:
  "extractFromLogs logs = Inr 0 \<or>
   extractFromLogs logs = Inl (Errorf ''bridge nonce not found in transaction receipt'' [])"
  by (induction logs) simp_all

text \<open>
  Claim C1. A receipt whose log has the all-zero hash as its first topic and the number
  7 in its data is answered with the nonce 0 and no error: the topic compared with is
  \<open>HexToHash "0x"\<close>, and the value returned is the placeholder \<open>big.NewInt(0)\<close>, not a
  value decoded from the log.
\<close>

theorem extractBridgeNonce_returns_placeholder:
  "extractBridgeNonceFromReceipt
     \<lparr>Status = 1, Logs = [\<lparr>Topics = [replicate 32 0], Data = replicate 31 0 @ [7]\<rparr>]\<rparr> = Inr 0"
  by (simp add: extractBridgeNonceFromReceipt_def burnBridgeTopic_zero)

section \<open>Connection failover\<close>

lemma probeClients_Inr:
  "probeClients w chainID cls h = (Inr cl, h') \<Longrightarrow>
     \<exists>i<length cls. cl = cls ! i \<and>
       h' = h @ map (\<lambda>x. EvChainID x (Some (5 * Second))) (take (Suc i) cls) \<and>
       \<not> isl (eth_ChainID w h') \<and>
       (\<forall>j<i. isl (eth_ChainID w (h @ map (\<lambda>x. EvChainID x (Some (5 * Second))) (take (Suc j) cls))))"
proof (induction cls arbitrary: h)
  case Nil
  then show ?case by simp
next
  case (Cons client rest)
  let ?ev = "\<lambda>x. EvChainID x (Some (5 * Second))"
  let ?h1 = "h @ [?ev client]"
  show ?case
  proof (cases "eth_ChainID w ?h1")
    case (Inr v)
    with Cons.prems have "cl = client" and "h' = ?h1" by auto
    with Inr show ?thesis by (intro exI [of _ 0]) simp
  next
    case (Inl err)
    with Cons.prems have "probeClients w chainID rest ?h1 = (Inr cl, h')" by simp
    from Cons.IH [OF this] obtain i where i: "i < length rest" "cl = rest ! i"
      "h' = ?h1 @ map ?ev (take (Suc i) rest)" "\<not> isl (eth_ChainID w h')"
      "\<forall>j<i. isl (eth_ChainID w (?h1 @ map ?ev (take (Suc j) rest)))"
      by blast
    have "\<forall>j<Suc i. isl (eth_ChainID w (h @ map ?ev (take (Suc j) (client # rest))))"
    proof (intro allI impI)
      fix j assume "j < Suc i"
      then show "isl (eth_ChainID w (h @ map ?ev (take (Suc j) (client # rest))))"
        using Inl i(5) by (cases j) simp_all
    qed
    with i show ?thesis by (intro exI [of _ "Suc i"]) simp
  qed
qed

lemma probeClients_Inl:
  "probeClients w chainID cls h = (Inl e, h') \<Longrightarrow>
     e = Errorf ''no available clients for chain ID %d'' [AUint chainID] \<and>
     h' = h @ map (\<lambda>x. EvChainID x (Some (5 * Second))) cls \<and>
     (\<forall>j<length cls. isl (eth_ChainID w (h @ map (\<lambda>x. EvChainID x (Some (5 * Second))) (take (Suc j) cls))))"
proof (induction cls arbitrary: h)
  case Nil
  then show ?case by simp
next
  case (Cons client rest)
  let ?ev = "\<lambda>x. EvChainID x (Some (5 * Second))"
  let ?h1 = "h @ [?ev client]"
  show ?case
  proof (cases "eth_ChainID w ?h1")
    case (Inr v)
    with Cons.prems show ?thesis by simp
  next
    case (Inl err)
    with Cons.prems have "probeClients w chainID rest ?h1 = (Inl e, h')" by simp
    from Cons.IH [OF this] have e: "e = Errorf ''no available clients for chain ID %d'' [AUint chainID]"
      and h': "h' = ?h1 @ map ?ev rest"
      and all: "\<forall>j<length rest. isl (eth_ChainID w (?h1 @ map ?ev (take (Suc j) rest)))"
      by blast+
    have "\<forall>j<length (client # rest). isl (eth_ChainID w (h @ map ?ev (take (Suc j) (client # rest))))"
    proof (intro allI impI)
      fix j assume "j < length (client # rest)"
      then show "isl (eth_ChainID w (h @ map ?ev (take (Suc j) (client # rest))))"
        using Inl all by (cases j) simp_all
    qed
    with e h' show ?thesis by simp
  qed
qed

text \<open>
  Claim C9. \<open>GetClient\<close> on a chain without a connection entry returns the not-connected
  error and probes nothing. Otherwise it probes the held connections in the order of the
  list, each with \<open>client.ChainID\<close> under a 5 second timeout: a connection is returned
  exactly when its probe is the first to succeed, after the probes of all connections
  before it failed and before any later connection is probed; an error is returned only
  after every held connection was probed and failed, and it is the no-available-clients
  error; when every probe fails that error is the result. The result is a connection of
  the list or an error, never both absent.
\<close>

theorem GetClient_failover:
  assumes "GetClient w c chainID h = (r, h')"
  shows "case clients c chainID of
      None \<Rightarrow> r = Inl (Errorf ''chain ID %d not supported or not connected'' [AUint chainID]) \<and> h' = h
    | Some cls \<Rightarrow>
        (\<forall>cl. r = Inr cl \<longrightarrow>
           (\<exists>i<length cls. cl = cls ! i \<and>
              h' = h @ map (\<lambda>x. EvChainID x (Some (5 * Second))) (take (Suc i) cls) \<and>
              \<not> isl (eth_ChainID w h') \<and>
              (\<forall>j<i. isl (eth_ChainID w
                 (h @ map (\<lambda>x. EvChainID x (Some (5 * Second))) (take (Suc j) cls)))))) \<and>
        (\<forall>e. r = Inl e \<longrightarrow>
           e = Errorf ''no available clients for chain ID %d'' [AUint chainID] \<and>
           h' = h @ map (\<lambda>x. EvChainID x (Some (5 * Second))) cls \<and>
           (\<forall>j<length cls. isl (eth_ChainID w
              (h @ map (\<lambda>x. EvChainID x (Some (5 * Second))) (take (Suc j) cls))))) \<and>
        ((\<forall>j<length cls. isl (eth_ChainID w
              (h @ map (\<lambda>x. EvChainID x (Some (5 * Second))) (take (Suc j) cls)))) \<longrightarrow>
           r = Inl (Errorf ''no available clients for chain ID %d'' [AUint chainID]))"
proof (cases "clients c chainID")
  case None
  with assms show ?thesis by (simp add: GetClient_def)
next
  case (Some cls)
  let ?ev = "\<lambda>x. EvChainID x (Some (5 * Second))"
  from Some assms have p: "probeClients w chainID cls h = (r, h')" by (simp add: GetClient_def)
  have a: "\<exists>i<length cls. cl = cls ! i \<and> h' = h @ map ?ev (take (Suc i) cls) \<and>
              \<not> isl (eth_ChainID w h') \<and>
              (\<forall>j<i. isl (eth_ChainID w (h @ map ?ev (take (Suc j) cls))))" if "r = Inr cl" for cl
    using probeClients_Inr [of w chainID cls h cl h'] p that by simp
  have b: "e = Errorf ''no available clients for chain ID %d'' [AUint chainID] \<and>
           h' = h @ map ?ev cls \<and>
           (\<forall>j<length cls. isl (eth_ChainID w (h @ map ?ev (take (Suc j) cls))))" if "r = Inl e" for e
    using probeClients_Inl [of w chainID cls h e h'] p that by simp
  have c: "r = Inl (Errorf ''no available clients for chain ID %d'' [AUint chainID])"
    if all: "\<forall>j<length cls. isl (eth_ChainID w (h @ map ?ev (take (Suc j) cls)))"
  proof (cases r)
    case (Inl e)
    with b show ?thesis by simp
  next
    case (Inr cl)
    from a [OF this] obtain i where "i < length cls" "h' = h @ map ?ev (take (Suc i) cls)"
      "\<not> isl (eth_ChainID w h')" by blast
    with all show ?thesis by auto
  qed
  from a b c show ?thesis unfolding Some option.case by blast
qed

theorem GetClient_failover_witness:
  "GetClient
     (example_world\<lparr>eth_ChainID :=
        (\<lambda>h. if length h = 1 then Inl (External ''connection refused'') else Inr 8453)\<rparr>)
     example_client 8453 []
     = (Inr 2, [EvChainID 1 (Some (5 * Second)), EvChainID 2 (Some (5 * Second))]) \<and>
   (\<exists>i<length [1, 2 :: nat]. (2 :: nat) = [1, 2] ! i \<and>
      (\<forall>j<i. isl (eth_ChainID
         (example_world\<lparr>eth_ChainID :=
            (\<lambda>h. if length h = 1 then Inl (External ''connection refused'') else Inr 8453)\<rparr>)
         ([] @ map (\<lambda>x. EvChainID x (Some (5 * Second))) (take (Suc j) [1, 2])))))"
proof -
  let ?w = "example_world\<lparr>eth_ChainID :=
        (\<lambda>h. if length h = 1 then Inl (External ''connection refused'') else Inr 8453)\<rparr>"
  have h: "GetClient ?w example_client 8453 []
     = (Inr 2, [EvChainID 1 (Some (5 * Second)), EvChainID 2 (Some (5 * Second))])"
    by (simp add: GetClient_def example_client_def example_world_def)
  have c: "clients example_client 8453 = Some [1, 2]"
    by (simp add: example_client_def)
  from GetClient_failover [OF h] c
  have "\<exists>i<length [1, 2 :: nat]. (2 :: nat) = [1, 2] ! i \<and>
      [EvChainID 1 (Some (5 * Second)), EvChainID 2 (Some (5 * Second))]
        = [] @ map (\<lambda>x. EvChainID x (Some (5 * Second))) (take (Suc i) [1, 2]) \<and>
      \<not> isl (eth_ChainID ?w [EvChainID 1 (Some (5 * Second)), EvChainID 2 (Some (5 * Second))]) \<and>
      (\<forall>j<i. isl (eth_ChainID ?w ([] @ map (\<lambda>x. EvChainID x (Some (5 * Second))) (take (Suc j) [1, 2]))))"
    by simp
  then have "\<exists>i<length [1, 2 :: nat]. (2 :: nat) = [1, 2] ! i \<and>
      (\<forall>j<i. isl (eth_ChainID ?w ([] @ map (\<lambda>x. EvChainID x (Some (5 * Second))) (take (Suc j) [1, 2]))))"
    by blast
  with h show ?thesis by blast
qed

section \<open>Transaction signer\<close>

lemma CreateTransactor_Inr:
  assumes "CreateTransactor w c chainID h = (Inr transactor, h')"
  shows "\<exists>reported. eth_ChainID w h' = Inr reported \<and> Uint64 reported = chainID \<and>
           Signer transactor = reported"
  using assms
  by (auto simp: CreateTransactor_def NewKeyedTransactorWithChainID_def Let_def
      split: prod.splits sum.splits if_splits option.splits)

lemma CreateTransactor_mismatch:
  assumes "GetClient w c chainID h = (Inr client, h1)"
    and "eth_ChainID w (h1 @ [EvChainID client None]) = Inr reported"
    and "reported < 2 ^ 64" and "reported \<noteq> chainID"
  shows "CreateTransactor w c chainID h =
           (Inl (Errorf ''client chain ID %d does not match requested chain ID %d''
                   [AUint reported, AUint chainID]), h1 @ [EvChainID client None])"
  using assms by (simp add: CreateTransactor_def Uint64_def)

text \<open>
  Claim C8. \<open>CreateTransactor\<close> compares \<open>clientChainID.Uint64()\<close>, the low 64 bits of
  the chain ID the node reports, with the requested chain ID. Asked for chain 8453 while
  the node reports 18446744073709560069 (that is \<open>2 ^ 64 + 8453\<close>), it finds no mismatch
  and returns a signer, bound to the chain ID the node reported.
\<close>

theorem CreateTransactor_misses_mismatch_beyond_64_bits:
  "CreateTransactor (example_world\<lparr>eth_ChainID := (\<lambda>h. Inr 18446744073709560069)\<rparr>)
     example_client 8453 []
   = (Inr \<lparr>Signer = 18446744073709560069, GasLimit_t = 3000000, GasPrice = Some 10000000000\<rparr>,
      [EvChainID 1 (Some (5 * Second)), EvChainID 1 None])"
  by (simp add: CreateTransactor_def GetClient_def example_client_def example_world_def Uint64_def
      NewKeyedTransactorWithChainID_def GetNetworkConfigByChainID_def SupportedNetworks_def)

section \<open>Client construction\<close>

lemma dialEndpoints_trace:
  "\<exists>new. snd (dialEndpoints w tmo cfg eps cl ci h) = h @ new \<and>
         (\<forall>ep t. EvDial ep t \<in> set new \<longrightarrow> t = tmo)"
proof (induction eps arbitrary: cl ci h)
  case Nil
  then show ?case by simp
next
  case (Cons ep eps)
  let ?h1 = "h @ [EvDial ep tmo]"
  let ?h2 = "?h1 @ [EvNewIDRX (ContractAddress cfg) (projr (DialContext w ?h1))]"
  have step: "\<exists>new. snd (dialEndpoints w tmo cfg eps cl' ci' (h @ pre)) = h @ new \<and>
         (\<forall>ep t. EvDial ep t \<in> set new \<longrightarrow> t = tmo)"
    if "\<forall>e t. EvDial e t \<in> set pre \<longrightarrow> t = tmo" for cl' ci' pre
  proof -
    from Cons.IH [of cl' ci' "h @ pre"] obtain new where
      "snd (dialEndpoints w tmo cfg eps cl' ci' (h @ pre)) = (h @ pre) @ new"
      "\<forall>ep t. EvDial ep t \<in> set new \<longrightarrow> t = tmo" by blast
    with that show ?thesis by (intro exI [of _ "pre @ new"]) auto
  qed
  have s1: "\<exists>new. snd (dialEndpoints w tmo cfg eps cl' ci' ?h1) = h @ new \<and>
         (\<forall>ep t. EvDial ep t \<in> set new \<longrightarrow> t = tmo)" for cl' ci'
    using step [of "[EvDial ep tmo]" cl' ci'] by simp
  have s2: "\<exists>new. snd (dialEndpoints w tmo cfg eps cl' ci' (?h1 @ [EvNewIDRX a b])) = h @ new \<and>
         (\<forall>ep t. EvDial ep t \<in> set new \<longrightarrow> t = tmo)" for cl' ci' a b
    using step [of "[EvDial ep tmo, EvNewIDRX a b]" cl' ci'] by simp
  have s3: "\<exists>new. h @ [EvDial ep tmo, EvNewIDRX a b] = h @ new \<and>
         (\<forall>ep t. EvDial ep t \<in> set new \<longrightarrow> t = tmo)" for a b
    by (intro exI [of _ "[EvDial ep tmo, EvNewIDRX a b]"]) simp
  show ?case
    using s1 s2 s3 by (simp add: Let_def split: sum.splits option.splits)
qed

lemma initializeNetworks_trace:
  "\<exists>new. snd (initializeNetworks w nets c h) = h @ new \<and>
         (\<forall>ep t. EvDial ep t \<in> set new \<longrightarrow> t = timeout c)"
proof (induction nets arbitrary: c h)
  case Nil
  then show ?case by simp
next
  case (Cons net nets)
  obtain networkName networkConfig where net: "net = (networkName, networkConfig)"
    by (cases net)
  obtain r h1 where d: "dialEndpoints w (timeout c) networkConfig (RPCEndpoints networkConfig) [] None h = (r, h1)"
    by (cases "dialEndpoints w (timeout c) networkConfig (RPCEndpoints networkConfig) [] None h")
  from dialEndpoints_trace [of w "timeout c" networkConfig "RPCEndpoints networkConfig" "[]" None h] d
  obtain pre where pre: "h1 = h @ pre" "\<forall>ep t. EvDial ep t \<in> set pre \<longrightarrow> t = timeout c"
    by auto
  have here: "\<exists>new. h1 = h @ new \<and> (\<forall>ep t. EvDial ep t \<in> set new \<longrightarrow> t = timeout c)"
    using pre by blast
  have rec: "\<exists>new. snd (initializeNetworks w nets c' h1) = h @ new \<and>
         (\<forall>ep t. EvDial ep t \<in> set new \<longrightarrow> t = timeout c)" if "timeout c' = timeout c" for c'
  proof -
    from Cons.IH [of c' h1] obtain new where
      "snd (initializeNetworks w nets c' h1) = h1 @ new"
      "\<forall>ep t. EvDial ep t \<in> set new \<longrightarrow> t = timeout c'" by blast
    with pre that show ?thesis by (intro exI [of _ "pre @ new"]) auto
  qed
  show ?case
    using Cons.IH [of c h] here rec d
    by (simp add: net split: sum.splits prod.splits)
qed

lemma initializeNetworks_timeout:
  "fst (initializeNetworks w nets c h) = Inr c' \<Longrightarrow> timeout c' = timeout c"
proof (induction nets arbitrary: c h)
  case Nil
  then show ?case by simp
next
  case (Cons net nets)
  obtain networkName networkConfig where net: "net = (networkName, networkConfig)"
    by (cases net)
  show ?case
    using Cons.prems Cons.IH
    by (auto simp: net split: sum.splits prod.splits if_splits)
qed

lemma initializeNetworks_timeout_pair:
  "initializeNetworks w nets c h = (Inr c', h') \<Longrightarrow> timeout c' = timeout c"
  using initializeNetworks_timeout [of w nets c h c'] by simp

lemma probeClients_trace:
  "\<exists>new. snd (probeClients w chainID cls h) = h @ new \<and>
         (\<forall>client t. EvChainID client t \<in> set new \<longrightarrow> t = Some (5 * Second))"
proof (induction cls arbitrary: h)
  case Nil
  then show ?case by simp
next
  case (Cons client rest)
  let ?h1 = "h @ [EvChainID client (Some (5 * Second))]"
  from Cons.IH [of ?h1] obtain new where
    "snd (probeClients w chainID rest ?h1) = ?h1 @ new"
    "\<forall>client t. EvChainID client t \<in> set new \<longrightarrow> t = Some (5 * Second)" by blast
  then have "\<exists>new. snd (probeClients w chainID rest ?h1) = h @ new \<and>
         (\<forall>client t. EvChainID client t \<in> set new \<longrightarrow> t = Some (5 * Second))"
    by (intro exI [of _ "EvChainID client (Some (5 * Second)) # new"]) auto
  moreover have "\<exists>new. ?h1 = h @ new \<and>
         (\<forall>client t. EvChainID client t \<in> set new \<longrightarrow> t = Some (5 * Second))"
    by (intro exI [of _ "[EvChainID client (Some (5 * Second))]"]) simp
  ultimately show ?case
    by (simp add: Let_def split: sum.splits)
qed

lemma GetClient_trace:
  "\<exists>new. snd (GetClient w c chainID h) = h @ new \<and>
         (\<forall>client t. EvChainID client t \<in> set new \<longrightarrow> t = Some (5 * Second))"
  using probeClients_trace [of w chainID _ h]
  by (simp add: GetClient_def split: option.splits)

lemma example_key_accepted: "crypto_HexToECDSA example_key = Inr 1"
  by (simp add: crypto_HexToECDSA_def example_key_def fromHexChar_def secp256k1_N_def)

text \<open>
  Claim C10, as amended. The client's timeout is 30 seconds when the configured
  \<open>Timeout\<close> is zero and the configured value otherwise; every endpoint dial of the
  construction runs under exactly that timeout. The liveness probes of the constructed
  client are the exception among its deadlines: they run under 5 seconds whatever was
  configured.
\<close>

theorem NewClient_timeout:
  "(\<forall>c. fst (NewClient w nets config h) = Inr c \<longrightarrow>
      timeout c = (if Timeout config = 0 then 30 * Second else Timeout config) \<and>
      (\<forall>chainID h0. \<exists>new. snd (GetClient w c chainID h0) = h0 @ new \<and>
         (\<forall>client t. EvChainID client t \<in> set new \<longrightarrow> t = Some (5 * Second)))) \<and>
   (\<exists>new. snd (NewClient w nets config h) = h @ new \<and>
      (\<forall>ep t. EvDial ep t \<in> set new \<longrightarrow>
         t = (if Timeout config = 0 then 30 * Second else Timeout config)))"
proof (intro conjI allI impI)
  fix c assume "fst (NewClient w nets config h) = Inr c"
  then show "timeout c = (if Timeout config = 0 then 30 * Second else Timeout config)"
    by (auto simp: NewClient_def Let_def split: sum.splits if_splits prod.splits
        dest!: initializeNetworks_timeout_pair)
next
  fix c chainID h0
  show "\<exists>new. snd (GetClient w c chainID h0) = h0 @ new \<and>
         (\<forall>client t. EvChainID client t \<in> set new \<longrightarrow> t = Some (5 * Second))"
    by (rule GetClient_trace)
next
  let ?eff = "if Timeout config = 0 then 30 * Second else Timeout config"
  have nothing: "\<exists>new. h = h @ new \<and> (\<forall>ep t. EvDial ep t \<in> set new \<longrightarrow> t = ?eff)"
    by (intro exI [of _ "[]"]) simp
  show "\<exists>new. snd (NewClient w nets config h) = h @ new \<and>
      (\<forall>ep t. EvDial ep t \<in> set new \<longrightarrow> t = ?eff)"
  proof (cases "HexToECDSA w (PrivateKeyHex config)")
    case (Inl err)
    with nothing show ?thesis by (simp add: NewClient_def)
  next
    case (Inr key)
    show ?thesis
    proof (cases "PublicKeyOK w key")
      case False
      with Inr nothing show ?thesis by (simp add: NewClient_def)
    next
      case True
      define c0 where "c0 = \<lparr>clients = Map.empty, contracts = Map.empty, privateKey = key,
                          address = PubkeyToAddress w key, timeout = ?eff\<rparr>"
      have t: "timeout c0 = ?eff" by (simp add: c0_def)
      have "snd (NewClient w nets config h) = snd (initializeNetworks w nets c0 h)"
        using Inr True by (simp add: NewClient_def c0_def Let_def split: prod.splits sum.splits)
      then show ?thesis
        using initializeNetworks_trace [of w nets c0 h] by (simp only: t)
    qed
  qed
qed

theorem NewClient_timeout_witness:
  "\<not> isl (fst (NewClient example_world SupportedNetworks \<lparr>PrivateKeyHex = example_key, Timeout = 0\<rparr> [])) \<and>
   timeout (projr (fst (NewClient example_world SupportedNetworks
                          \<lparr>PrivateKeyHex = example_key, Timeout = 0\<rparr> []))) = 30 * Second \<and>
   EvDial ''https://mainnet.base.org'' (30 * Second)
     \<in> set (snd (NewClient example_world SupportedNetworks \<lparr>PrivateKeyHex = example_key, Timeout = 0\<rparr> [])) \<and>
   EvChainID 1 (Some (5 * Second))
     \<in> set (snd (GetClient example_world
                    (projr (fst (NewClient example_world SupportedNetworks
                                   \<lparr>PrivateKeyHex = example_key, Timeout = 0\<rparr> []))) 8453 []))"
proof -
  let ?N = "NewClient example_world SupportedNetworks \<lparr>PrivateKeyHex = example_key, Timeout = 0\<rparr> []"
  have ok: "\<not> isl (fst ?N)"
    by (simp add: NewClient_def example_world_def SupportedNetworks_def example_key_accepted)
  then have c: "fst ?N = Inr (projr (fst ?N))"
    by (cases "fst ?N") simp_all
  from NewClient_timeout [of example_world SupportedNetworks "\<lparr>PrivateKeyHex = example_key, Timeout = 0\<rparr>" "[]"] c
  have t: "timeout (projr (fst ?N)) = 30 * Second"
    by simp
  have d: "EvDial ''https://mainnet.base.org'' (30 * Second) \<in> set (snd ?N)"
    by (simp add: NewClient_def example_world_def SupportedNetworks_def example_key_accepted)
  have p: "EvChainID 1 (Some (5 * Second)) \<in> set (snd (GetClient example_world (projr (fst ?N)) 8453 []))"
    by (simp add: NewClient_def GetClient_def example_world_def SupportedNetworks_def
        example_key_accepted)
  from ok t d p show ?thesis by blast
qed

text \<open>
  Claim C10 as stated fails: with the private key 1 and a configured timeout of 10
  seconds the constructed client carries 10 seconds, yet the RPC call \<open>GetClient\<close> then
  makes, the liveness probe \<open>client.ChainID\<close>, runs under a deadline of 5 seconds.
\<close>

theorem NewClient_timeout_counterexample:
  "\<not> isl (fst example_constructed) \<and>
   timeout (projr (fst example_constructed)) = 10 * Second \<and>
   snd (GetClient example_world (projr (fst example_constructed)) 8453 (snd example_constructed))
     = snd example_constructed @ [EvChainID 1 (Some (5 * Second))] \<and>
   5 * Second \<noteq> 10 * Second"
  by (simp add: example_constructed_def NewClient_def GetClient_def example_world_def
      SupportedNetworks_def Second_def example_key_accepted)

section \<open>Waiting for a transaction\<close>

lemma upt_shift: "[k..<k + Suc n] = k # [Suc k..<Suc k + n]"
  by (simp add: upt_conv_Cons)

lemma waitLoop_spec:
  assumes "0 < interval" and "waitLoop w client txHash interval deadline k h = (r, h')"
  shows "\<exists>n. h' = h @ map (\<lambda>i. EvReceipt client txHash (int (Suc i) * interval)) [k..<k + n] \<and>
           (\<forall>i<n. int (Suc (k + i)) * interval \<le> deadline) \<and>
           (\<forall>i<n. isl r \<or> Suc i < n \<longrightarrow>
              isl (eth_TransactionReceipt w
                (h @ map (\<lambda>i. EvReceipt client txHash (int (Suc i) * interval)) [k..<k + Suc i]))) \<and>
           (case r of
              Inr receipt \<Rightarrow> 0 < n \<and> eth_TransactionReceipt w h' = Inr receipt
            | Inl e \<Rightarrow> e = Errorf ''timeout waiting for transaction %s'' [AHash txHash] \<and>
                deadline \<le> int (Suc (k + n)) * interval)"
  using assms
proof (induction w client txHash interval deadline k h arbitrary: r h' rule: waitLoop.induct)
  case (1 w client txHash interval deadline k h)
  let ?pe = "\<lambda>i. EvReceipt client txHash (int (Suc i) * interval)"
  let ?t = "(int k + 1) * interval"
  let ?h1 = "h @ [EvReceipt client txHash ?t]"
  have pos: "\<not> interval \<le> 0" using "1.prems" by simp
  have pek: "?pe k = EvReceipt client txHash ?t" by (simp add: add.commute)
  note eq = waitLoop.simps [of w client txHash interval deadline k h]
  show ?case
  proof (cases "deadline < ?t \<or> (deadline = ?t \<and> \<not> select_tick w h)")
    case True
    with "1.prems" have "r = Inl (Errorf ''timeout waiting for transaction %s'' [AHash txHash])"
      and "h' = h"
      by (auto simp: eq Let_def)
    with True show ?thesis
      by (intro exI [of _ 0]) (auto simp: add.commute)
  next
    case False
    then have le: "?t \<le> deadline" by auto
    have go: "\<not> (interval \<le> 0 \<or> deadline < ?t \<or> deadline = ?t \<and> \<not> select_tick w h)"
      using False pos by simp
    show ?thesis
    proof (cases "eth_TransactionReceipt w ?h1")
      case (Inr receipt)
      with go "1.prems" have "r = Inr receipt" and "h' = ?h1"
        by (auto simp: eq Let_def)
      with Inr le show ?thesis
        by (intro exI [of _ 1]) (simp add: add.commute)
    next
      case (Inl err)
      with go "1.prems" have rec: "waitLoop w client txHash interval deadline (Suc k) ?h1 = (r, h')"
        by (auto simp: eq Let_def)
      from "1.IH" [OF refl go refl Inl "1.prems"(1) rec]
      obtain n where n: "h' = ?h1 @ map ?pe [Suc k..<Suc k + n]"
        "\<forall>i<n. int (Suc (Suc k + i)) * interval \<le> deadline"
        "\<forall>i<n. isl r \<or> Suc i < n \<longrightarrow>
              isl (eth_TransactionReceipt w (?h1 @ map ?pe [Suc k..<Suc k + Suc i]))"
        "case r of
              Inr receipt \<Rightarrow> 0 < n \<and> eth_TransactionReceipt w h' = Inr receipt
            | Inl e \<Rightarrow> e = Errorf ''timeout waiting for transaction %s'' [AHash txHash] \<and>
                deadline \<le> int (Suc (Suc k + n)) * interval"
        by blast
      have a: "h' = h @ map ?pe [k..<k + Suc n]"
        unfolding upt_shift using n(1) by (simp add: add.commute)
      have b: "\<forall>i<Suc n. int (Suc (k + i)) * interval \<le> deadline"
      proof (intro allI impI)
        fix i assume "i < Suc n"
        then show "int (Suc (k + i)) * interval \<le> deadline"
          using le n(2) by (cases i) (simp_all add: add.commute)
      qed
      have c: "\<forall>i<Suc n. isl r \<or> Suc i < Suc n \<longrightarrow>
              isl (eth_TransactionReceipt w (h @ map ?pe [k..<k + Suc i]))"
      proof (intro allI impI)
        fix i assume i: "i < Suc n" and d: "isl r \<or> Suc i < Suc n"
        show "isl (eth_TransactionReceipt w (h @ map ?pe [k..<k + Suc i]))"
        proof (cases i)
          case 0
          then show ?thesis using Inl by (simp add: add.commute)
        next
          case (Suc j)
          with i d have "j < n" and "isl r \<or> Suc j < n" by auto
          with n(3) have "isl (eth_TransactionReceipt w (?h1 @ map ?pe [Suc k..<Suc k + Suc j]))"
            by blast
          then show ?thesis
            unfolding Suc upt_shift [of k "Suc j"] by (simp add: add.commute)
        qed
      qed
      have d: "case r of
              Inr receipt \<Rightarrow> 0 < Suc n \<and> eth_TransactionReceipt w h' = Inr receipt
            | Inl e \<Rightarrow> e = Errorf ''timeout waiting for transaction %s'' [AHash txHash] \<and>
                deadline \<le> int (Suc (k + Suc n)) * interval"
        using n(4) by (simp split: sum.splits)
      from a b c d show ?thesis by blast
    qed
  qed
qed

lemma registered_BlockTime:
  "GetNetworkConfigByChainID chainID = Some (networkConfig, networkName) \<Longrightarrow>
     BlockTime networkConfig \<in> {2 * Second, 3 * Second, 5 * Second}"
  by (auto simp: GetNetworkConfigByChainID_def SupportedNetworks_def split: if_splits)

lemma registered_timing:
  assumes "GetNetworkConfigByChainID chainID = Some (networkConfig, networkName)"
  shows "mul64 (BlockTime networkConfig) 10 = BlockTime networkConfig * 10"
    and "Quo (BlockTime networkConfig) 2 = BlockTime networkConfig div 2"
    and "0 < BlockTime networkConfig div 2"
  using registered_BlockTime [OF assms]
  by (auto simp: mul64_def Quo_def Second_def)

text \<open>
  Claim C7. For a chain of the network table, once a connection is acquired, the wait
  polls \<open>client.TransactionReceipt\<close> at the instants \<open>interval\<close>, \<open>2 * interval\<close>, ...,
  \<open>n * interval\<close> with \<open>interval = BlockTime / 2\<close>, none of them after the deadline
  \<open>max (BlockTime * 10) Minute\<close> (or the caller's own deadline when that is earlier). It
  returns a receipt only when the last poll returned it. Otherwise it returns the timeout
  error, and then the next tick would not have come before the deadline; in particular,
  when every poll fails the result is the timeout error. The wait is a total function:
  it always returns.
\<close>

theorem WaitForTransaction_deadline_and_polling:
  assumes reg: "GetNetworkConfigByChainID chainID = Some (networkConfig, networkName)"
    and conn: "GetClient w c chainID h = (Inr client, h1)"
    and res: "WaitForTransaction w c ctx chainID txHash h = (r, h')"
  shows "\<exists>n.
    (let interval = BlockTime networkConfig div 2;
         timeout = max (BlockTime networkConfig * 10) Minute;
         deadline = (case ctx of None \<Rightarrow> timeout | Some d \<Rightarrow> min d timeout);
         poll = (\<lambda>i. EvReceipt client txHash (int (Suc i) * interval))
     in h' = h1 @ map poll [0..<n] \<and>
        (\<forall>i<n. int (Suc i) * interval \<le> deadline) \<and>
        (\<forall>i<n. isl r \<or> Suc i < n \<longrightarrow>
           isl (eth_TransactionReceipt w (h1 @ map poll [0..<Suc i]))) \<and>
        (case r of
           Inr receipt \<Rightarrow> 0 < n \<and> eth_TransactionReceipt w h' = Inr receipt
         | Inl e \<Rightarrow> e = Errorf ''timeout waiting for transaction %s'' [AHash txHash] \<and>
             deadline \<le> int (Suc n) * interval) \<and>
        ((\<forall>i<n. isl (eth_TransactionReceipt w (h1 @ map poll [0..<Suc i]))) \<longrightarrow>
           r = Inl (Errorf ''timeout waiting for transaction %s'' [AHash txHash])))"
proof -
  define interval where "interval = BlockTime networkConfig div 2"
  define timeout where "timeout = max (BlockTime networkConfig * 10) Minute"
  define deadline where "deadline = (case ctx of None \<Rightarrow> timeout | Some d \<Rightarrow> min d timeout)"
  define poll where "poll = (\<lambda>i. EvReceipt client txHash (int (Suc i) * interval))"
  note tm = registered_timing [OF reg]
  have pos: "0 < interval" using tm(3) by (simp add: interval_def)
  have tmo: "(if a < Minute then Minute else a) = max a Minute" for a :: int
    by (simp add: max_def)
  have "WaitForTransaction w c ctx chainID txHash h =
      (if Quo (BlockTime networkConfig) 2 \<le> 0
       then (Inl (Panic ''non-positive interval for NewTicker''), h1)
       else waitLoop w client txHash (Quo (BlockTime networkConfig) 2)
              (case ctx of None \<Rightarrow> max (mul64 (BlockTime networkConfig) 10) Minute
               | Some d \<Rightarrow> min d (max (mul64 (BlockTime networkConfig) 10) Minute)) 0 h1)"
    by (simp add: WaitForTransaction_def conn reg Let_def tmo)
  also have "\<dots> = waitLoop w client txHash interval deadline 0 h1"
    unfolding tm(1) tm(2) interval_def deadline_def timeout_def using tm(3) by simp
  finally have "WaitForTransaction w c ctx chainID txHash h
      = waitLoop w client txHash interval deadline 0 h1" .
  with res have loop: "waitLoop w client txHash interval deadline 0 h1 = (r, h')" by simp
  from waitLoop_spec [OF pos loop, unfolded add_0] obtain n where n:
    "h' = h1 @ map poll [0..<n]"
    "\<forall>i<n. int (Suc i) * interval \<le> deadline"
    "\<forall>i<n. isl r \<or> Suc i < n \<longrightarrow> isl (eth_TransactionReceipt w (h1 @ map poll [0..<Suc i]))"
    "case r of
       Inr receipt \<Rightarrow> 0 < n \<and> eth_TransactionReceipt w h' = Inr receipt
     | Inl e \<Rightarrow> e = Errorf ''timeout waiting for transaction %s'' [AHash txHash] \<and>
         deadline \<le> int (Suc n) * interval"
    unfolding poll_def by blast
  have last: "r = Inl (Errorf ''timeout waiting for transaction %s'' [AHash txHash])"
    if all: "\<forall>i<n. isl (eth_TransactionReceipt w (h1 @ map poll [0..<Suc i]))"
  proof (cases r)
    case (Inl e)
    with n(4) show ?thesis by simp
  next
    case (Inr receipt)
    with n(4) have "0 < n" and ok: "eth_TransactionReceipt w h' = Inr receipt" by simp_all
    then obtain m where m: "n = Suc m" by (cases n) simp_all
    with all have "isl (eth_TransactionReceipt w (h1 @ map poll [0..<Suc m]))" by simp
    with ok n(1) m show ?thesis by simp
  qed
  from n last show ?thesis
    unfolding Let_def interval_def [symmetric] timeout_def [symmetric] deadline_def [symmetric]
      poll_def [symmetric]
    by blast
qed

theorem WaitForTransaction_deadline_and_polling_witness:
  "GetNetworkConfigByChainID 8453 = Some (snd (SupportedNetworks ! 0), ''BaseMainnet'') \<and>
   GetClient silent_world example_client 8453 [] = (Inr 1, [EvChainID 1 (Some (5 * Second))]) \<and>
   fst (WaitForTransaction silent_world example_client None 8453 (replicate 32 1) [])
     = Inl (Errorf ''timeout waiting for transaction %s'' [AHash (replicate 32 1)]) \<and>
   length (snd (WaitForTransaction silent_world example_client None 8453 (replicate 32 1) [])) = 60 \<and>
   (\<exists>n. snd (WaitForTransaction silent_world example_client None 8453 (replicate 32 1) [])
          = [EvChainID 1 (Some (5 * Second))]
            @ map (\<lambda>i. EvReceipt 1 (replicate 32 1)
                         (int (Suc i) * (BlockTime (snd (SupportedNetworks ! 0)) div 2))) [0..<n] \<and>
        max (BlockTime (snd (SupportedNetworks ! 0)) * 10) Minute
          \<le> int (Suc n) * (BlockTime (snd (SupportedNetworks ! 0)) div 2))"
proof -
  let ?W = "WaitForTransaction silent_world example_client None 8453 (replicate 32 1) []"
  have reg: "GetNetworkConfigByChainID 8453 = Some (snd (SupportedNetworks ! 0), ''BaseMainnet'')"
    by (simp add: GetNetworkConfigByChainID_def SupportedNetworks_def)
  have conn: "GetClient silent_world example_client 8453 []
       = (Inr 1, [EvChainID 1 (Some (5 * Second))])"
    by (simp add: GetClient_def silent_world_def example_world_def example_client_def)
  have run: "fst ?W = Inl (Errorf ''timeout waiting for transaction %s'' [AHash (replicate 32 1)]) \<and>
      length (snd ?W) = 60"
    by (simp add: WaitForTransaction_def GetClient_def silent_world_def example_world_def
        example_client_def GetNetworkConfigByChainID_def SupportedNetworks_def mul64_def Quo_def
        Minute_def Second_def waitLoop.simps)
  have res: "?W = (Inl (Errorf ''timeout waiting for transaction %s'' [AHash (replicate 32 1)]), snd ?W)"
    using run by (simp add: prod_eq_iff)
  from WaitForTransaction_deadline_and_polling [OF reg conn res, unfolded Let_def]
  have "\<exists>n. snd ?W = [EvChainID 1 (Some (5 * Second))]
            @ map (\<lambda>i. EvReceipt 1 (replicate 32 1)
                         (int (Suc i) * (BlockTime (snd (SupportedNetworks ! 0)) div 2))) [0..<n] \<and>
        max (BlockTime (snd (SupportedNetworks ! 0)) * 10) Minute
          \<le> int (Suc n) * (BlockTime (snd (SupportedNetworks ! 0)) div 2)"
    by (elim exE conjE) (simp only: option.case sum.case, blast)
  with reg conn run show ?thesis by blast
qed

section \<open>The bridge\<close>

text \<open>Which events the steps of the bridge leave alone: acquiring a connection and making
  a signer only query chain IDs, waiting only polls for the receipt.\<close>

lemma probeClients_keeps:
  assumes "\<And>client t. \<not> P (EvChainID client t)"
  shows "filter P (snd (probeClients w chainID cls h)) = filter P h"
  by (induction cls arbitrary: h) (simp_all add: assms Let_def split: sum.splits)

lemma GetClient_keeps:
  assumes "\<And>client t. \<not> P (EvChainID client t)"
  shows "filter P (snd (GetClient w c chainID h)) = filter P h"
  by (simp add: GetClient_def probeClients_keeps [where P = P, OF assms] split: option.splits)

lemma CreateTransactor_keeps:
  assumes "\<And>client t. \<not> P (EvChainID client t)"
  shows "filter P (snd (CreateTransactor w c chainID h)) = filter P h"
proof -
  have "filter P h1 = filter P h" if "GetClient w c chainID h = (r, h1)" for r h1
    using GetClient_keeps [where P = P, OF assms, of w c chainID h] that by simp
  then show ?thesis
    by (auto simp: CreateTransactor_def Let_def assms split: prod.splits sum.splits option.splits)
qed

lemma waitLoop_keeps:
  assumes "\<And>client txHash t. \<not> P (EvReceipt client txHash t)"
  shows "filter P (snd (waitLoop w client txHash interval deadline k h)) = filter P h"
proof (induction w client txHash interval deadline k h rule: waitLoop.induct)
  case (1 w client txHash interval deadline k h)
  show ?case
    using "1.IH" [OF refl _ refl]
    by (subst waitLoop.simps) (auto simp: Let_def assms split: sum.splits)
qed

lemma WaitForTransaction_keeps:
  assumes "\<And>client t. \<not> P (EvChainID client t)"
    and "\<And>client txHash t. \<not> P (EvReceipt client txHash t)"
  shows "filter P (snd (WaitForTransaction w c ctx chainID txHash h)) = filter P h"
proof -
  have "filter P h1 = filter P h" if "GetClient w c chainID h = (r, h1)" for r h1
    using GetClient_keeps [where P = P, OF assms(1), of w c chainID h] that by simp
  then show ?thesis
    by (auto simp: WaitForTransaction_def Let_def waitLoop_keeps [where P = P, OF assms(2)]
        split: prod.splits sum.splits option.splits)
qed

lemma BurnBridge_keeps_mints:
  "filter isMint (snd (BurnBridge w c request h)) = filter isMint h"
proof -
  have "filter isMint h1 = filter isMint h" if "CreateTransactor w c (FromChainID request) h = (r, h1)" for r h1
    using CreateTransactor_keeps [where P = isMint, of w c "FromChainID request" h] that by simp
  then show ?thesis
    by (auto simp: BurnBridge_def Let_def split: prod.splits sum.splits)
qed

lemma CreateTransactor_extends:
  "\<exists>new. snd (CreateTransactor w c chainID h) = h @ new"
proof -
  from GetClient_trace [of w c chainID h] obtain new where
    "snd (GetClient w c chainID h) = h @ new" by blast
  then show ?thesis
    by (auto simp: CreateTransactor_def Let_def split: prod.splits sum.splits option.splits)
qed

lemma MintBridge_extends:
  "\<exists>new. snd (MintBridge w c chainID to amount fromChainID bridgeNonce h) = h @ new"
proof -
  from CreateTransactor_extends [of w c chainID h] obtain new where
    "snd (CreateTransactor w c chainID h) = h @ new" by blast
  then show ?thesis
    by (auto simp: MintBridge_def Let_def split: prod.splits sum.splits)
qed

text \<open>
  Claim C3. When the burn transaction was submitted and the wait for it fails, or its
  receipt does not have the successful status, \<open>CompleteBridge\<close> ends with the
  corresponding burn error and its trace has no mint call beyond those it started
  with. Conversely, a run that issues a mint call has seen the burn submitted, its receipt
  arrive with the successful status and the nonce extraction succeed, and the mint
  call comes after all of these in the trace.
\<close>

theorem CompleteBridge_mint_only_after_confirmed_burn:
  "(\<forall>burnTx h1 r h2.
      BurnBridge w c request h = (Inr burnTx, h1) \<longrightarrow>
      WaitForTransaction w c ctx (FromChainID request) (TxHash burnTx) h1 = (r, h2) \<longrightarrow>
      (case r of Inl err \<Rightarrow> True | Inr receipt \<Rightarrow> Status receipt \<noteq> ReceiptStatusSuccessful) \<longrightarrow>
      CompleteBridge w c ctx request h =
        (Some (case r of Inl err \<Rightarrow> wrapErr ''burn transaction failed: %w'' err
                       | Inr receipt \<Rightarrow> Errorf ''burn transaction reverted'' []), h2) \<and>
      filter isMint h2 = filter isMint h) \<and>
   (filter isMint (snd (CompleteBridge w c ctx request h)) \<noteq> filter isMint h \<longrightarrow>
      (\<exists>burnTx h1 receipt h2 bridgeNonce.
         BurnBridge w c request h = (Inr burnTx, h1) \<and>
         WaitForTransaction w c ctx (FromChainID request) (TxHash burnTx) h1 = (Inr receipt, h2) \<and>
         Status receipt = ReceiptStatusSuccessful \<and>
         extractBridgeNonceFromReceipt receipt = Inr bridgeNonce \<and>
         filter isMint h2 = filter isMint h \<and>
         (\<exists>new. snd (CompleteBridge w c ctx request h) = h2 @ new)))"
proof (intro conjI allI impI)
  fix burnTx h1 r h2
  assume burn: "BurnBridge w c request h = (Inr burnTx, h1)"
    and wait: "WaitForTransaction w c ctx (FromChainID request) (TxHash burnTx) h1 = (r, h2)"
    and bad: "case r of Inl err \<Rightarrow> True | Inr receipt \<Rightarrow> Status receipt \<noteq> ReceiptStatusSuccessful"
  show "CompleteBridge w c ctx request h =
        (Some (case r of Inl err \<Rightarrow> wrapErr ''burn transaction failed: %w'' err
                       | Inr receipt \<Rightarrow> Errorf ''burn transaction reverted'' []), h2)"
    using burn wait bad by (cases r) (simp_all add: CompleteBridge_def)
  have "filter isMint h1 = filter isMint h"
    using BurnBridge_keeps_mints [of w c request h] burn by simp
  moreover have "filter isMint h2 = filter isMint h1"
    using WaitForTransaction_keeps [where P = isMint, of w c ctx "FromChainID request" "TxHash burnTx" h1]
      wait by simp
  ultimately show "filter isMint h2 = filter isMint h" by simp
next
  assume mint: "filter isMint (snd (CompleteBridge w c ctx request h)) \<noteq> filter isMint h"
  obtain rb h1 where burn: "BurnBridge w c request h = (rb, h1)"
    by (cases "BurnBridge w c request h")
  have k1: "filter isMint h1 = filter isMint h"
    using BurnBridge_keeps_mints [of w c request h] burn by simp
  show "\<exists>burnTx h1 receipt h2 bridgeNonce.
         BurnBridge w c request h = (Inr burnTx, h1) \<and>
         WaitForTransaction w c ctx (FromChainID request) (TxHash burnTx) h1 = (Inr receipt, h2) \<and>
         Status receipt = ReceiptStatusSuccessful \<and>
         extractBridgeNonceFromReceipt receipt = Inr bridgeNonce \<and>
         filter isMint h2 = filter isMint h \<and>
         (\<exists>new. snd (CompleteBridge w c ctx request h) = h2 @ new)"
  proof (cases rb)
    case (Inl err)
    with burn k1 mint show ?thesis by (simp add: CompleteBridge_def)
  next
    case (Inr burnTx)
    obtain rw h2 where wait:
      "WaitForTransaction w c ctx (FromChainID request) (TxHash burnTx) h1 = (rw, h2)"
      by (cases "WaitForTransaction w c ctx (FromChainID request) (TxHash burnTx) h1")
    have k2: "filter isMint h2 = filter isMint h"
      using WaitForTransaction_keeps [where P = isMint, of w c ctx "FromChainID request" "TxHash burnTx" h1]
        wait k1 by simp
    show ?thesis
    proof (cases rw)
      case (Inl err)
      with burn Inr wait k2 mint show ?thesis by (simp add: CompleteBridge_def)
    next
      case receipt: (Inr receipt)
      show ?thesis
      proof (cases "Status receipt = ReceiptStatusSuccessful")
        case False
        with burn Inr wait receipt k2 mint show ?thesis by (simp add: CompleteBridge_def)
      next
        case True
        show ?thesis
        proof (cases "extractBridgeNonceFromReceipt receipt")
          case (Inl err)
          with burn Inr wait receipt True k2 mint show ?thesis by (simp add: CompleteBridge_def)
        next
          case nonce: (Inr bridgeNonce)
          from MintBridge_extends [of w c "ToChainID request" "ToAddress request" "Amount_r request"
              "FromChainID request" bridgeNonce h2]
          obtain new where "snd (MintBridge w c (ToChainID request) (ToAddress request)
              (Amount_r request) (FromChainID request) bridgeNonce h2) = h2 @ new" by blast
          then have "snd (CompleteBridge w c ctx request h) = h2 @ new"
            using burn Inr wait receipt True nonce
            by (auto simp: CompleteBridge_def split: prod.splits sum.splits)
          with burn Inr wait receipt True nonce k2 show ?thesis by blast
        qed
      qed
    qed
  qed
qed

lemmas bridge_defs = CompleteBridge_def BurnBridge_def MintBridge_def WaitForTransaction_def
  CreateTransactor_def GetClient_def GetContract_def Uint64_def NewKeyedTransactorWithChainID_def
  GetNetworkConfigByChainID_def SupportedNetworks_def extractBridgeNonceFromReceipt_def
  burnBridgeTopic_zero ReceiptStatusSuccessful_def mul64_def Quo_def Minute_def Second_def
  example_world_def example_client_def example_receipt_def example_request_def
  waitLoop.simps ToWei_unfold

theorem CompleteBridge_mint_only_after_confirmed_burn_witness:
  "BurnBridge reverting_world example_client example_request []
     = (Inr \<lparr>TxHash = replicate 32 1\<rparr>,
        [EvChainID 1 (Some (5 * Second)), EvChainID 1 None,
         EvBurnBridge 10 \<lparr>Signer = 8453, GasLimit_t = 3000000, GasPrice = Some 10000000000\<rparr> 50000 137]) \<and>
   WaitForTransaction reverting_world example_client None (FromChainID example_request)
       (TxHash \<lparr>TxHash = replicate 32 1\<rparr>)
       [EvChainID 1 (Some (5 * Second)), EvChainID 1 None,
        EvBurnBridge 10 \<lparr>Signer = 8453, GasLimit_t = 3000000, GasPrice = Some 10000000000\<rparr> 50000 137]
     = (Inr \<lparr>Status = 0, Logs = []\<rparr>,
        [EvChainID 1 (Some (5 * Second)), EvChainID 1 None,
         EvBurnBridge 10 \<lparr>Signer = 8453, GasLimit_t = 3000000, GasPrice = Some 10000000000\<rparr> 50000 137,
         EvChainID 1 (Some (5 * Second)), EvReceipt 1 (replicate 32 1) Second]) \<and>
   Status \<lparr>Status = 0, Logs = []\<rparr> \<noteq> ReceiptStatusSuccessful \<and>
   CompleteBridge reverting_world example_client None example_request []
     = (Some (Errorf ''burn transaction reverted'' []),
        [EvChainID 1 (Some (5 * Second)), EvChainID 1 None,
         EvBurnBridge 10 \<lparr>Signer = 8453, GasLimit_t = 3000000, GasPrice = Some 10000000000\<rparr> 50000 137,
         EvChainID 1 (Some (5 * Second)), EvReceipt 1 (replicate 32 1) Second]) \<and>
   filter isMint (snd (CompleteBridge example_world example_client None example_request []))
     \<noteq> filter isMint [] \<and>
   (\<exists>burnTx h1 receipt h2 bridgeNonce.
      BurnBridge example_world example_client example_request [] = (Inr burnTx, h1) \<and>
      WaitForTransaction example_world example_client None (FromChainID example_request)
        (TxHash burnTx) h1 = (Inr receipt, h2) \<and>
      Status receipt = ReceiptStatusSuccessful \<and>
      extractBridgeNonceFromReceipt receipt = Inr bridgeNonce)"
proof -
  let ?hb = "[EvChainID 1 (Some (5 * Second)), EvChainID 1 None,
        EvBurnBridge 10 \<lparr>Signer = 8453, GasLimit_t = 3000000, GasPrice = Some 10000000000\<rparr> 50000 137]"
  let ?hw = "?hb @ [EvChainID 1 (Some (5 * Second)), EvReceipt 1 (replicate 32 1) Second]"
  have burn: "BurnBridge reverting_world example_client example_request []
     = (Inr \<lparr>TxHash = replicate 32 1\<rparr>, ?hb)"
    by (simp add: bridge_defs reverting_world_def)
  have wait: "WaitForTransaction reverting_world example_client None (FromChainID example_request)
       (TxHash \<lparr>TxHash = replicate 32 1\<rparr>) ?hb = (Inr \<lparr>Status = 0, Logs = []\<rparr>, ?hw)"
    by (simp add: bridge_defs reverting_world_def)
  have bad: "case (Inr \<lparr>Status = 0, Logs = []\<rparr> :: error + Receipt) of Inl err \<Rightarrow> True
             | Inr receipt \<Rightarrow> Status receipt \<noteq> ReceiptStatusSuccessful"
    by (simp add: ReceiptStatusSuccessful_def)
  have a: "CompleteBridge reverting_world example_client None example_request []
     = (Some (Errorf ''burn transaction reverted'' []), ?hw)"
    using CompleteBridge_mint_only_after_confirmed_burn
      [where w = reverting_world and c = example_client and ctx = None and request = example_request
        and h = "[]", THEN conjunct1, rule_format, OF burn wait bad]
    by simp
  have mint: "filter isMint (snd (CompleteBridge example_world example_client None example_request []))
     \<noteq> filter isMint []"
    by (simp add: bridge_defs)
  from CompleteBridge_mint_only_after_confirmed_burn
      [where w = example_world and c = example_client and ctx = None and request = example_request
        and h = "[]", THEN conjunct2, rule_format, OF mint]
  have b: "\<exists>burnTx h1 receipt h2 bridgeNonce.
      BurnBridge example_world example_client example_request [] = (Inr burnTx, h1) \<and>
      WaitForTransaction example_world example_client None (FromChainID example_request)
        (TxHash burnTx) h1 = (Inr receipt, h2) \<and>
      Status receipt = ReceiptStatusSuccessful \<and>
      extractBridgeNonceFromReceipt receipt = Inr bridgeNonce"
    by blast
  have s: "Status \<lparr>Status = 0, Logs = []\<rparr> \<noteq> ReceiptStatusSuccessful"
    by (simp add: ReceiptStatusSuccessful_def)
  from burn wait s a mint b show ?thesis
    by (simp only: append.simps) blast
qed

lemma error_numbers_wrapErr: "error_numbers (wrapErr msg err) = error_numbers err"
  by (cases err) simp_all

text \<open>
  Claim C2, as amended. When the burn was confirmed with the successful status, the nonce
  was extracted and \<open>MintBridge\<close> fails, \<open>CompleteBridge\<close> returns an ordinary error:
  the mint error wrapped under the message \<open>failed to mint on destination chain\<close>. The
  wrapping adds no number to those of the mint error, so the nonce is not part of the
  result; there is no partial-failure value.
\<close>

theorem CompleteBridge_mint_failure_is_wrapped_error:
  assumes "BurnBridge w c request h = (Inr burnTx, h1)"
    and "WaitForTransaction w c ctx (FromChainID request) (TxHash burnTx) h1 = (Inr receipt, h2)"
    and "Status receipt = ReceiptStatusSuccessful"
    and "extractBridgeNonceFromReceipt receipt = Inr bridgeNonce"
    and "MintBridge w c (ToChainID request) (ToAddress request) (Amount_r request)
           (FromChainID request) bridgeNonce h2 = (Inl err, h3)"
  shows "CompleteBridge w c ctx request h
           = (Some (wrapErr ''failed to mint on destination chain: %w'' err), h3) \<and>
         error_numbers (wrapErr ''failed to mint on destination chain: %w'' err) = error_numbers err"
  using assms by (simp add: CompleteBridge_def error_numbers_wrapErr)

theorem CompleteBridge_mint_failure_is_wrapped_error_witness:
  "BurnBridge mint_failing_world example_client example_request []
     = (Inr \<lparr>TxHash = replicate 32 1\<rparr>,
        [EvChainID 1 (Some (5 * Second)), EvChainID 1 None,
         EvBurnBridge 10 \<lparr>Signer = 8453, GasLimit_t = 3000000, GasPrice = Some 10000000000\<rparr> 50000 137]) \<and>
   WaitForTransaction mint_failing_world example_client None (FromChainID example_request)
       (TxHash \<lparr>TxHash = replicate 32 1\<rparr>)
       [EvChainID 1 (Some (5 * Second)), EvChainID 1 None,
        EvBurnBridge 10 \<lparr>Signer = 8453, GasLimit_t = 3000000, GasPrice = Some 10000000000\<rparr> 50000 137]
     = (Inr example_receipt,
        [EvChainID 1 (Some (5 * Second)), EvChainID 1 None,
         EvBurnBridge 10 \<lparr>Signer = 8453, GasLimit_t = 3000000, GasPrice = Some 10000000000\<rparr> 50000 137,
         EvChainID 1 (Some (5 * Second)), EvReceipt 1 (replicate 32 1) Second]) \<and>
   Status example_receipt = ReceiptStatusSuccessful \<and>
   extractBridgeNonceFromReceipt example_receipt = Inr 0 \<and>
   MintBridge mint_failing_world example_client (ToChainID example_request)
       (ToAddress example_request) (Amount_r example_request) (FromChainID example_request) 0
       [EvChainID 1 (Some (5 * Second)), EvChainID 1 None,
        EvBurnBridge 10 \<lparr>Signer = 8453, GasLimit_t = 3000000, GasPrice = Some 10000000000\<rparr> 50000 137,
        EvChainID 1 (Some (5 * Second)), EvReceipt 1 (replicate 32 1) Second]
     = (Inl (Errorf ''failed to mint bridge tokens: %w'' [AErr (External ''execution reverted'')]),
        [EvChainID 1 (Some (5 * Second)), EvChainID 1 None,
         EvBurnBridge 10 \<lparr>Signer = 8453, GasLimit_t = 3000000, GasPrice = Some 10000000000\<rparr> 50000 137,
         EvChainID 1 (Some (5 * Second)), EvReceipt 1 (replicate 32 1) Second,
         EvChainID 3 (Some (5 * Second)), EvChainID 3 None,
         EvMintBridge 11 \<lparr>Signer = 137, GasLimit_t = 3000000, GasPrice = Some 50000000000\<rparr>
           99 50000 8453 0]) \<and>
   fst (CompleteBridge mint_failing_world example_client None example_request [])
     = Some (wrapErr ''failed to mint on destination chain: %w''
              (Errorf ''failed to mint bridge tokens: %w'' [AErr (External ''execution reverted'')]))"
proof -
  let ?hb = "[EvChainID 1 (Some (5 * Second)), EvChainID 1 None,
        EvBurnBridge 10 \<lparr>Signer = 8453, GasLimit_t = 3000000, GasPrice = Some 10000000000\<rparr> 50000 137]"
  let ?hw = "?hb @ [EvChainID 1 (Some (5 * Second)), EvReceipt 1 (replicate 32 1) Second]"
  let ?hm = "?hw @ [EvChainID 3 (Some (5 * Second)), EvChainID 3 None,
         EvMintBridge 11 \<lparr>Signer = 137, GasLimit_t = 3000000, GasPrice = Some 50000000000\<rparr>
           99 50000 8453 0]"
  have burn: "BurnBridge mint_failing_world example_client example_request []
     = (Inr \<lparr>TxHash = replicate 32 1\<rparr>, ?hb)"
    by (simp add: bridge_defs mint_failing_world_def)
  have wait: "WaitForTransaction mint_failing_world example_client None (FromChainID example_request)
       (TxHash \<lparr>TxHash = replicate 32 1\<rparr>) ?hb = (Inr example_receipt, ?hw)"
    by (simp add: bridge_defs mint_failing_world_def)
  have status: "Status example_receipt = ReceiptStatusSuccessful"
    by (simp add: bridge_defs mint_failing_world_def)
  have nonce: "extractBridgeNonceFromReceipt example_receipt = Inr 0"
    by (simp add: bridge_defs mint_failing_world_def)
  have mint: "MintBridge mint_failing_world example_client (ToChainID example_request)
       (ToAddress example_request) (Amount_r example_request) (FromChainID example_request) 0 ?hw
     = (Inl (Errorf ''failed to mint bridge tokens: %w'' [AErr (External ''execution reverted'')]), ?hm)"
    by (simp add: bridge_defs mint_failing_world_def)
  from CompleteBridge_mint_failure_is_wrapped_error [OF burn wait status nonce mint]
  have "fst (CompleteBridge mint_failing_world example_client None example_request [])
     = Some (wrapErr ''failed to mint on destination chain: %w''
              (Errorf ''failed to mint bridge tokens: %w'' [AErr (External ''execution reverted'')]))"
    by simp
  with burn wait status nonce mint show ?thesis
    by (simp only: append.simps)
qed

text \<open>
  Claim C2 as stated fails: with the burn confirmed and the mint rejected, the result is
  the error \<open>failed to mint on destination chain\<close> around the mint error; it holds no
  number at all, while the mint was called with the nonce 0.
\<close>

theorem CompleteBridge_mint_failure_counterexample:
  "fst (CompleteBridge mint_failing_world example_client None example_request [])
     = Some (Errorf ''failed to mint on destination chain: %w''
              [AErr (Errorf ''failed to mint bridge tokens: %w''
                       [AErr (External ''execution reverted'')])]) \<and>
   error_numbers (Errorf ''failed to mint on destination chain: %w''
              [AErr (Errorf ''failed to mint bridge tokens: %w''
                       [AErr (External ''execution reverted'')])]) = [] \<and>
   last (snd (CompleteBridge mint_failing_world example_client None example_request []))
     = EvMintBridge 11 \<lparr>Signer = 137, GasLimit_t = 3000000, GasPrice = Some 50000000000\<rparr>
         99 50000 8453 0"
  by (simp add: bridge_defs mint_failing_world_def)

lemma BurnBridge_keeps_burns_before:
  "CreateTransactor w c chainID h = (r, h1) \<Longrightarrow> filter isBurn h1 = filter isBurn h"
  using CreateTransactor_keeps [where P = isBurn, of w c chainID h] by simp

text \<open>
  Claim C4, as amended. Before the burn is called the source side is checked. A source
  chain without a bound contract is rejected and nothing leaves the process. A source
  chain for which \<open>CreateTransactor\<close> returns an error is rejected after the chain ID
  queries, and the burn is not called. For a request whose source and destination chain
  IDs are both in the network table and whose amount is not negative, nothing else is
  checked: once the contract is found and the signer made, the burn is called with the
  amount converted by \<open>ToWei\<close> and the destination as given, and \<open>BurnBridge\<close> returns
  what the binding returns. A zero amount, an amount with digits beyond the precision,
  or a destination equal to the source do not stop the call.
\<close>

theorem BurnBridge_checks_source_only:
  "(\<forall>err. GetContract c (FromChainID request) = Inl err \<longrightarrow>
      CompleteBridge w c ctx request h
        = (Some (wrapErr ''failed to burn on source chain: %w'' err), h)) \<and>
   (\<forall>contract err h1.
      GetContract c (FromChainID request) = Inr contract \<longrightarrow>
      CreateTransactor w c (FromChainID request) h = (Inl err, h1) \<longrightarrow>
      CompleteBridge w c ctx request h
        = (Some (wrapErr ''failed to burn on source chain: %w'' err), h1) \<and>
      filter isBurn h1 = filter isBurn h) \<and>
   (\<forall>contract transactor h1.
      IsChainSupported (FromChainID request) \<longrightarrow>
      IsChainSupported (ToChainID request) \<longrightarrow>
      0 \<le> value_d (Amount (Amount_r request)) \<longrightarrow>
      GetContract c (FromChainID request) = Inr contract \<longrightarrow>
      CreateTransactor w c (FromChainID request) h = (Inr transactor, h1) \<longrightarrow>
      BurnBridge w c request h
        = (case contract_BurnBridge w
                  (h1 @ [EvBurnBridge contract transactor (ToWei (Amount_r request))
                           (ToChainID request)]) of
             Inl err \<Rightarrow> Inl (Errorf ''failed to burn for bridge: %w'' [AErr err])
           | Inr tx \<Rightarrow> Inr tx,
           h1 @ [EvBurnBridge contract transactor (ToWei (Amount_r request)) (ToChainID request)]) \<and>
      filter isBurn h1 = filter isBurn h)"
proof (intro conjI allI impI)
  fix err assume "GetContract c (FromChainID request) = Inl err"
  then show "CompleteBridge w c ctx request h
        = (Some (wrapErr ''failed to burn on source chain: %w'' err), h)"
    by (simp add: CompleteBridge_def BurnBridge_def)
next
  fix contract err h1
  assume "GetContract c (FromChainID request) = Inr contract"
    and "CreateTransactor w c (FromChainID request) h = (Inl err, h1)"
  then show "CompleteBridge w c ctx request h
        = (Some (wrapErr ''failed to burn on source chain: %w'' err), h1)"
    by (simp add: CompleteBridge_def BurnBridge_def)
next
  fix contract err h1
  assume "CreateTransactor w c (FromChainID request) h = (Inl err, h1)"
  then show "filter isBurn h1 = filter isBurn h"
    by (rule BurnBridge_keeps_burns_before)
next
  fix contract transactor h1
  assume "GetContract c (FromChainID request) = Inr contract"
    and "CreateTransactor w c (FromChainID request) h = (Inr transactor, h1)"
  then show "BurnBridge w c request h
        = (case contract_BurnBridge w
                  (h1 @ [EvBurnBridge contract transactor (ToWei (Amount_r request))
                           (ToChainID request)]) of
             Inl err \<Rightarrow> Inl (Errorf ''failed to burn for bridge: %w'' [AErr err])
           | Inr tx \<Rightarrow> Inr tx,
           h1 @ [EvBurnBridge contract transactor (ToWei (Amount_r request)) (ToChainID request)])"
    by (simp add: BurnBridge_def Let_def split: sum.splits)
next
  fix contract transactor h1
  assume "CreateTransactor w c (FromChainID request) h = (Inr transactor, h1)"
  then show "filter isBurn h1 = filter isBurn h"
    by (rule BurnBridge_keeps_burns_before)
qed

theorem BurnBridge_checks_source_only_witness:
  "GetContract example_client (FromChainID (example_request\<lparr>FromChainID := 100\<rparr>))
     = Inl (Errorf ''IDRX contract not available for chain ID %d'' [AUint 100]) \<and>
   CompleteBridge example_world example_client None (example_request\<lparr>FromChainID := 100\<rparr>) []
     = (Some (wrapErr ''failed to burn on source chain: %w''
                (Errorf ''IDRX contract not available for chain ID %d'' [AUint 100])), []) \<and>
   GetContract example_client (FromChainID example_request) = Inr 10 \<and>
   CreateTransactor (example_world\<lparr>eth_ChainID := (\<lambda>h. Inr 1)\<rparr>) example_client
       (FromChainID example_request) []
     = (Inl (Errorf ''client chain ID %d does not match requested chain ID %d'' [AUint 1, AUint 8453]),
        [EvChainID 1 (Some (5 * Second)), EvChainID 1 None]) \<and>
   CompleteBridge (example_world\<lparr>eth_ChainID := (\<lambda>h. Inr 1)\<rparr>) example_client None
       example_request []
     = (Some (wrapErr ''failed to burn on source chain: %w''
                (Errorf ''client chain ID %d does not match requested chain ID %d''
                   [AUint 1, AUint 8453])),
        [EvChainID 1 (Some (5 * Second)), EvChainID 1 None]) \<and>
   IsChainSupported (FromChainID same_chain_request) \<and>
   IsChainSupported (ToChainID same_chain_request) \<and>
   0 \<le> value_d (Amount (Amount_r same_chain_request)) \<and>
   GetContract example_client (FromChainID same_chain_request) = Inr 10 \<and>
   CreateTransactor example_world example_client (FromChainID same_chain_request) []
     = (Inr \<lparr>Signer = 8453, GasLimit_t = 3000000, GasPrice = Some 10000000000\<rparr>,
        [EvChainID 1 (Some (5 * Second)), EvChainID 1 None]) \<and>
   BurnBridge example_world example_client same_chain_request []
     = (Inr \<lparr>TxHash = replicate 32 1\<rparr>,
        [EvChainID 1 (Some (5 * Second)), EvChainID 1 None,
         EvBurnBridge 10 \<lparr>Signer = 8453, GasLimit_t = 3000000, GasPrice = Some 10000000000\<rparr>
           0 8453])"
proof -
  let ?w = "example_world\<lparr>eth_ChainID := (\<lambda>h. Inr 1)\<rparr>"
  note T = BurnBridge_checks_source_only
  have g1: "GetContract example_client (FromChainID (example_request\<lparr>FromChainID := 100\<rparr>))
     = Inl (Errorf ''IDRX contract not available for chain ID %d'' [AUint 100])"
    by (simp add: bridge_defs)
  note c1 = T [where w = example_world and c = example_client and ctx = None
      and request = "example_request\<lparr>FromChainID := 100\<rparr>" and h = "[]",
      THEN conjunct1, rule_format, OF g1]
  have g2: "GetContract example_client (FromChainID example_request) = Inr 10"
    by (simp add: bridge_defs)
  have t2: "CreateTransactor ?w example_client (FromChainID example_request) []
     = (Inl (Errorf ''client chain ID %d does not match requested chain ID %d'' [AUint 1, AUint 8453]),
        [EvChainID 1 (Some (5 * Second)), EvChainID 1 None])"
    by (simp add: bridge_defs)
  note c2 = T [where w = ?w and c = example_client and ctx = None
      and request = example_request and h = "[]",
      THEN conjunct2, THEN conjunct1, rule_format, OF g2 t2, THEN conjunct1]
  have s3: "IsChainSupported (FromChainID same_chain_request)"
    by (simp add: IsChainSupported_def SupportedNetworks_def same_chain_request_def)
  have d3: "IsChainSupported (ToChainID same_chain_request)"
    by (simp add: IsChainSupported_def SupportedNetworks_def same_chain_request_def)
  have a3: "0 \<le> value_d (Amount (Amount_r same_chain_request))"
    by (simp add: same_chain_request_def)
  have g3: "GetContract example_client (FromChainID same_chain_request) = Inr 10"
    by (simp add: bridge_defs same_chain_request_def)
  have t3: "CreateTransactor example_world example_client (FromChainID same_chain_request) []
     = (Inr \<lparr>Signer = 8453, GasLimit_t = 3000000, GasPrice = Some 10000000000\<rparr>,
        [EvChainID 1 (Some (5 * Second)), EvChainID 1 None])"
    by (simp add: bridge_defs same_chain_request_def)
  note c3 = T [where w = example_world and c = example_client and ctx = None
      and request = same_chain_request and h = "[]",
      THEN conjunct2, THEN conjunct2, rule_format, OF s3 d3 a3 g3 t3, THEN conjunct1]
  have r3: "BurnBridge example_world example_client same_chain_request []
     = (Inr \<lparr>TxHash = replicate 32 1\<rparr>,
        [EvChainID 1 (Some (5 * Second)), EvChainID 1 None,
         EvBurnBridge 10 \<lparr>Signer = 8453, GasLimit_t = 3000000, GasPrice = Some 10000000000\<rparr>
           0 8453])"
    using c3 by (simp add: example_world_def same_chain_request_def ToWei_unfold)
  from g1 c1 g2 t2 c2 s3 d3 a3 g3 t3 r3 show ?thesis
    by (intro conjI)
qed

text \<open>
  Claim C4 as stated fails: a request from Base to Base for zero units, and a request
  from Base to Polygon for 1.999 units at precision 2, are not rejected: for both the
  burn is called and the transaction returned, the second for 199 base units.
\<close>

theorem BurnBridge_validation_counterexample:
  "IsChainSupported (FromChainID same_chain_request) \<and>
   FromChainID same_chain_request = ToChainID same_chain_request \<and>
   ToWei (Amount_r same_chain_request) = 0 \<and>
   BurnBridge example_world example_client same_chain_request []
     = (Inr \<lparr>TxHash = replicate 32 1\<rparr>,
        [EvChainID 1 (Some (5 * Second)), EvChainID 1 None,
         EvBurnBridge 10 \<lparr>Signer = 8453, GasLimit_t = 3000000, GasPrice = Some 10000000000\<rparr>
           0 8453]) \<and>
   IsChainSupported (FromChainID excess_digits_request) \<and>
   IsChainSupported (ToChainID excess_digits_request) \<and>
   exp_d (Amount (Amount_r excess_digits_request)) < - int (Decimals (Amount_r excess_digits_request)) \<and>
   BurnBridge example_world example_client excess_digits_request []
     = (Inr \<lparr>TxHash = replicate 32 1\<rparr>,
        [EvChainID 1 (Some (5 * Second)), EvChainID 1 None,
         EvBurnBridge 10 \<lparr>Signer = 8453, GasLimit_t = 3000000, GasPrice = Some 10000000000\<rparr>
           199 137])"
  by (simp add: bridge_defs IsChainSupported_def same_chain_request_def excess_digits_request_def)

end
